theory Spec2Isabelle
  imports Main
begin

section \<open>JavaScript values used by the Modal provider\<close>

text \<open>
  The provider (\<^verbatim>\<open>packages/modal/src/index.ts\<close>) manipulates JavaScript strings. A
  JavaScript string is a sequence of UTF-16 code units; it is modelled as the list of
  those code units, each a natural number. A literal of the source is written
  \<open>js ''...''\<close>.
\<close>

type_synonym jsstring = "nat list"

abbreviation js :: "string \<Rightarrow> jsstring" where
  "js s \<equiv> map of_char s"

text \<open>
  \<^verbatim>\<open>String.prototype.includes\<close>: is the search string found at some position of the
  subject? Every position of the subject is tried in turn.
\<close>

fun starts_with :: "'a list \<Rightarrow> 'a list \<Rightarrow> bool" where
  "starts_with s [] = True"
| "starts_with [] (m # ms) = False"
| "starts_with (c # cs) (m # ms) = (c = m \<and> starts_with cs ms)"

fun includes_str :: "'a list \<Rightarrow> 'a list \<Rightarrow> bool" where
  "includes_str [] m = starts_with [] m"
| "includes_str (c # cs) m = (starts_with (c # cs) m \<or> includes_str cs m)"

text \<open>The mathematical notion the spec speaks of: \<open>m\<close> occurs somewhere inside \<open>s\<close>.\<close>

definition occurs_in :: "'a list \<Rightarrow> 'a list \<Rightarrow> bool" where
  "occurs_in m s = (\<exists>a b. s = a @ m @ b)"

section \<open>Runtime detection\<close>

text \<open>Modelled from the spec: the type \<^verbatim>\<open>Runtime\<close> is declared in
  \<^verbatim>\<open>@computesdk/provider\<close>, which is not among the sources; the spec gives the runtime
  tag as the enumeration of node and python.\<close>

datatype Runtime = Node | Python

definition detectRuntime :: "jsstring \<Rightarrow> Runtime" where
  "detectRuntime code =
     (if includes_str code (js ''console.log'') \<or>
         includes_str code (js ''process.'') \<or>
         includes_str code (js ''require('') \<or>
         includes_str code (js ''module.exports'') \<or>
         includes_str code (js ''__dirname'') \<or>
         includes_str code (js ''__filename'') \<or>
         includes_str code (js ''throw new Error'') \<or>
         includes_str code (js ''new Error('')
      then Node
      else if includes_str code (js ''print('') \<or>
         includes_str code (js ''import '') \<or>
         includes_str code (js ''def '') \<or>
         includes_str code (js ''sys.'') \<or>
         includes_str code (js ''json.'') \<or>
         includes_str code (js [CHR ''f'', CHR 0x22]) \<or>
         includes_str code (js [CHR ''f'', CHR 0x27]) \<or>
         includes_str code (js ''raise '')
      then Python
      else Node)"

text \<open>The two families of strong markers, as the lists of literals the source tests.\<close>

definition node_markers :: "jsstring list" where
  "node_markers =
     [js ''console.log'', js ''process.'', js ''require('', js ''module.exports'',
      js ''__dirname'', js ''__filename'', js ''throw new Error'', js ''new Error('']"

definition python_markers :: "jsstring list" where
  "python_markers =
     [js ''print('', js ''import '', js ''def '', js ''sys.'', js ''json.'',
      js [CHR ''f'', CHR 0x22], js [CHR ''f'', CHR 0x27], js ''raise '']"

section \<open>Thrown values, falsy defaults, trimming\<close>

text \<open>
  A value thrown or rejected in JavaScript is either an \<^verbatim>\<open>Error\<close> object, of which the
  provider reads the \<^verbatim>\<open>message\<close>, or some other value, of which it takes
  \<^verbatim>\<open>String(error)\<close>. Every remote call of the Modal SDK either returns or throws, so its
  outcome is a sum, with the value thrown on the left.
\<close>

datatype thrown = JSError jsstring | NonError jsstring

text \<open>\<^verbatim>\<open>error instanceof Error ? error.message : String(error)\<close>\<close>

fun error_text :: "thrown \<Rightarrow> jsstring" where
  "error_text (JSError m) = m"
| "error_text (NonError s) = s"

text \<open>
  A value rejected by \<^verbatim>\<open>exec\<close>, \<^verbatim>\<open>readText\<close> or \<^verbatim>\<open>wait\<close> may also be one that has no
  string conversion at all, such as an object without a prototype: it is no \<^verbatim>\<open>Error\<close>,
  and \<^verbatim>\<open>String(error)\<close> throws a \<^verbatim>\<open>TypeError\<close> on it. \<open>message_of\<close> is the expression
  \<^verbatim>\<open>error instanceof Error ? error.message : String(error)\<close> on such outcomes: the text,
  or the \<^verbatim>\<open>TypeError\<close> thrown in its place.
\<close>

datatype rejection = Printable thrown | Unprintable

fun message_of :: "rejection \<Rightarrow> thrown + jsstring" where
  "message_of (Printable e) = Inr (error_text e)"
| "message_of Unprintable = Inl (JSError (js ''Cannot convert object to primitive value''))"

text \<open>
  \<^verbatim>\<open>x || ''\<close> and \<^verbatim>\<open>x || 0\<close>: a stream text or an exit code that is \<^verbatim>\<open>null\<close> or
  \<^verbatim>\<open>undefined\<close> (\<open>None\<close>) is replaced by the default; the empty string and zero are falsy
  too and are replaced by themselves.
\<close>

fun or_empty :: "jsstring option \<Rightarrow> jsstring" where
  "or_empty None = []"
| "or_empty (Some s) = s"

fun or_zero :: "int option \<Rightarrow> int" where
  "or_zero None = 0"
| "or_zero (Some n) = n"

text \<open>
  \<^verbatim>\<open>String.prototype.trim\<close> removes the white space and line terminators of ECMAScript
  from both ends: TAB, LF, VT, FF, CR, SP, NBSP, the other space separators of Unicode,
  LS, PS and the byte order mark.
\<close>

definition is_ws :: "nat \<Rightarrow> bool" where
  "is_ws c = (c = 9 \<or> c = 10 \<or> c = 11 \<or> c = 12 \<or> c = 13 \<or> c = 32 \<or> c = 160 \<or>
              c = 5760 \<or> (8192 \<le> c \<and> c \<le> 8202) \<or> c = 8232 \<or> c = 8233 \<or>
              c = 8239 \<or> c = 8287 \<or> c = 12288 \<or> c = 65279)"

definition trim :: "jsstring \<Rightarrow> jsstring" where
  "trim s = rev (dropWhile is_ws (rev (dropWhile is_ws s)))"

text \<open>\<^verbatim>\<open>Array.prototype.join\<close> on an array of strings.\<close>

fun join_str :: "jsstring \<Rightarrow> jsstring list \<Rightarrow> jsstring" where
  "join_str sep [] = []"
| "join_str sep [x] = x"
| "join_str sep (x # y # ys) = x @ sep @ join_str sep (y # ys)"

section \<open>The capability interface of the Modal SDK\<close>

text \<open>
  The sandbox object of the SDK is opaque to the provider (\<^verbatim>\<open>sandbox: any\<close>). What the
  provider calls on it is modelled as a record of outcomes. A process gives the outcome
  of awaiting both \<^verbatim>\<open>readText()\<close> calls together (\<^verbatim>\<open>Promise.all\<close>: the pair of texts, or the
  rejection) and the outcome of \<^verbatim>\<open>wait()\<close>.
\<close>

record process =
  readText :: "rejection + jsstring option \<times> jsstring option"
  wait :: "rejection + int option"

datatype filedata = Text jsstring | Bytes "nat list"

text \<open>A file handle: each method may be missing (\<^verbatim>\<open>typeof file.read === 'function'\<close>).\<close>

record file_obj =
  f_read :: "(thrown + filedata) option"
  f_write :: "(jsstring \<Rightarrow> thrown + unit) option"
  f_close :: "(thrown + unit) option"

text \<open>
  A sandbox object. \<open>sb_ref\<close> is the identity of the object, which the source compares
  with \<^verbatim>\<open>!==\<close>. \<open>sb_tunnels\<close> is the tunnel map: its property keys, which are the
  texts of the port numbers, each with the URL of its tunnel.
\<close>

record sandbox_obj =
  sb_ref :: nat
  sb_exec :: "jsstring list \<Rightarrow> rejection + process"
  sb_terminate :: "thrown + unit"
  sb_poll :: "thrown + int option"
  sb_tunnels :: "thrown + (jsstring \<times> jsstring) list"
  sb_open :: "jsstring \<Rightarrow> thrown + file_obj option"

text \<open>\<^verbatim>\<open>App.lookup('computesdk-modal', { createIfMissing: true })\<close> and the app it gives.\<close>

record modal_app =
  imageFromRegistry :: "jsstring \<Rightarrow> thrown + unit"
  createSandbox :: "thrown + sandbox_obj"

record ModalSandbox =
  sandbox :: sandbox_obj
  sandboxId :: jsstring

text \<open>
  The remote calls an operation makes, in the order it makes them. An operation of the
  provider returns this trace together with its result or the value it throws.
\<close>

datatype event =
    AppLookup
  | ImageFromRegistry jsstring
  | CreateSandbox
  | Exec nat "jsstring list"
  | ReadText
  | Wait
  | Terminate nat
  | Poll nat
  | Tunnels nat
  | Open nat jsstring
  | FileRead
  | FileWrite jsstring
  | FileClose

text \<open>
  The sequence that every command-running operation of the source repeats:
  \<^verbatim>\<open>exec(argv, {stdout: 'pipe', stderr: 'pipe'})\<close>, then both streams read together,
  then \<^verbatim>\<open>wait()\<close>.
\<close>

definition exec_collect ::
  "sandbox_obj \<Rightarrow> jsstring list \<Rightarrow>
   event list \<times> (rejection + jsstring option \<times> jsstring option \<times> int option)" where
  "exec_collect sb argv =
     (case sb_exec sb argv of
        Inl e \<Rightarrow> ([Exec (sb_ref sb) argv], Inl e)
      | Inr p \<Rightarrow>
          (case readText p of
             Inl e \<Rightarrow> ([Exec (sb_ref sb) argv, ReadText], Inl e)
           | Inr (out, err) \<Rightarrow>
               (case wait p of
                  Inl e \<Rightarrow> ([Exec (sb_ref sb) argv, ReadText, Wait], Inl e)
                | Inr code \<Rightarrow> ([Exec (sb_ref sb) argv, ReadText, Wait], Inr (out, err, code)))))"

section \<open>runCode\<close>

record CodeResult =
  code_output :: jsstring
  code_exitCode :: int
  code_language :: Runtime

text \<open>
  The choice of the execution sandbox: the handle's own sandbox for node, otherwise a
  Python sandbox created for this run, with \<^verbatim>\<open>shouldCleanupSandbox\<close> set.
\<close>

definition select_sandbox ::
  "(thrown + modal_app) \<Rightarrow> ModalSandbox \<Rightarrow> jsstring \<Rightarrow> Runtime \<Rightarrow>
   event list \<times> (thrown + sandbox_obj \<times> jsstring list \<times> bool)" where
  "select_sandbox lookup modalSandbox code detectedRuntime =
     (if detectedRuntime = Node
      then ([], Inr (sandbox modalSandbox, [js ''node'', js ''-e'', code], False))
      else
        (case lookup of
           Inl e \<Rightarrow> ([AppLookup], Inl e)
         | Inr app \<Rightarrow>
             (case imageFromRegistry app (js ''python:3.13-slim'') of
                Inl e \<Rightarrow> ([AppLookup, ImageFromRegistry (js ''python:3.13-slim'')], Inl e)
              | Inr _ \<Rightarrow>
                  (case createSandbox app of
                     Inl e \<Rightarrow>
                       ([AppLookup, ImageFromRegistry (js ''python:3.13-slim''), CreateSandbox],
                        Inl e)
                   | Inr sb \<Rightarrow>
                       ([AppLookup, ImageFromRegistry (js ''python:3.13-slim''), CreateSandbox],
                        Inr (sb, [js ''python3'', js ''-c'', code], True))))))"

text \<open>
  \<^verbatim>\<open>exitCode !== 0 && stderr && (stderr.includes('SyntaxError') ||
  stderr.includes('invalid syntax'))\<close>
\<close>

definition is_syntax_failure :: "int option \<Rightarrow> jsstring option \<Rightarrow> bool" where
  "is_syntax_failure exitCode err =
     (exitCode \<noteq> Some 0 \<and>
      (case err of
         None \<Rightarrow> False
       | Some s \<Rightarrow> s \<noteq> [] \<and>
           (includes_str s (js ''SyntaxError'') \<or> includes_str s (js ''invalid syntax''))))"

text \<open>The body of the \<^verbatim>\<open>try\<close> block of \<^verbatim>\<open>runCode\<close>.\<close>

definition runCode_try ::
  "(thrown + modal_app) \<Rightarrow> ModalSandbox \<Rightarrow> jsstring \<Rightarrow> Runtime option \<Rightarrow>
   event list \<times> (rejection + CodeResult)" where
  "runCode_try lookup modalSandbox code runtime =
     (let detectedRuntime = (case runtime of Some r \<Rightarrow> r | None \<Rightarrow> detectRuntime code) in
      case select_sandbox lookup modalSandbox code detectedRuntime of
        (tr1, Inl e) \<Rightarrow> (tr1, Inl (Printable e))
      | (tr1, Inr (executionSandbox, command, shouldCleanupSandbox)) \<Rightarrow>
          (case exec_collect executionSandbox command of
             (tr2, Inl e) \<Rightarrow> (tr1 @ tr2, Inl e)
           | (tr2, Inr (out, err, exitCode)) \<Rightarrow>
               (let tr3 =
                      (if shouldCleanupSandbox \<and>
                          sb_ref executionSandbox \<noteq> sb_ref (sandbox modalSandbox)
                       then [Terminate (sb_ref executionSandbox)] else [])
                in if is_syntax_failure exitCode err
                   then (tr1 @ tr2 @ tr3,
                         Inl (Printable (JSError (js ''Syntax error: '' @ trim (or_empty err)))))
                   else (tr1 @ tr2 @ tr3,
                         Inr \<lparr>code_output = or_empty out @ or_empty err,
                              code_exitCode = or_zero exitCode,
                              code_language = detectedRuntime\<rparr>))))"

text \<open>
  The \<^verbatim>\<open>catch\<close> block: an \<^verbatim>\<open>Error\<close> whose message includes \<^verbatim>\<open>Syntax error\<close> is
  thrown again as it is, anything else is wrapped. The wrapping takes the text of the
  value, and a value without one makes the block throw the \<^verbatim>\<open>TypeError\<close> of \<open>message_of\<close>.
\<close>

definition runCode_catch :: "rejection \<Rightarrow> thrown" where
  "runCode_catch error =
     (case error of
        Printable (JSError m) \<Rightarrow>
          if includes_str m (js ''Syntax error'') then JSError m
          else JSError (js ''Modal execution failed: '' @ m)
      | _ \<Rightarrow>
          (case message_of error of
             Inl typeError \<Rightarrow> typeError
           | Inr text \<Rightarrow> JSError (js ''Modal execution failed: '' @ text)))"

definition runCode ::
  "(thrown + modal_app) \<Rightarrow> ModalSandbox \<Rightarrow> jsstring \<Rightarrow> Runtime option \<Rightarrow>
   event list \<times> (thrown + CodeResult)" where
  "runCode lookup modalSandbox code runtime =
     (case runCode_try lookup modalSandbox code runtime of
        (tr, Inl error) \<Rightarrow> (tr, Inl (runCode_catch error))
      | (tr, Inr result) \<Rightarrow> (tr, Inr result))"

section \<open>runCommand\<close>

text \<open>Modelled from the spec: the type \<^verbatim>\<open>RunCommandOptions\<close> is declared in
  \<^verbatim>\<open>@computesdk/provider\<close>, which is not among the sources; the spec's execution request
  has an optional mapping \<open>env\<close>, an optional \<open>cwd\<close> and the flag \<open>background\<close>. The
  mapping is kept as the list of its entries, in the order of \<^verbatim>\<open>Object.entries\<close>.\<close>

record RunCommandOptions =
  env :: "(jsstring \<times> jsstring) list option"
  cwd :: "jsstring option"
  background :: bool

record CommandResult =
  cmd_stdout :: jsstring
  cmd_stderr :: jsstring
  cmd_exitCode :: int
  cmd_durationMs :: int

abbreviation dquote :: jsstring where
  "dquote \<equiv> js [CHR 0x22]"

text \<open>Modelled from the spec: \<^verbatim>\<open>escapeShellArg\<close> is imported from \<^verbatim>\<open>@computesdk/provider\<close>,
  which is not among the sources. The spec has each value ``shell-escaped'' so that none
  ``can break out of its quoting context'', and \<open>runCommand\<close> puts the escaped value
  between double quotes: the function puts a backslash before each of the four
  characters that are special inside the double quotes of the shell, the backslash, the
  double quote, the dollar sign and the backquote.\<close>

definition escapeShellArg :: "jsstring \<Rightarrow> jsstring" where
  "escapeShellArg arg =
     concat (map (\<lambda>c. if c = 92 \<or> c = 34 \<or> c = 36 \<or> c = 96 then [92, c] else [c]) arg)"

definition env_entry :: "jsstring \<times> jsstring \<Rightarrow> jsstring" where
  "env_entry kv = fst kv @ js ''='' @ dquote @ escapeShellArg (snd kv) @ dquote"

definition with_env :: "RunCommandOptions option \<Rightarrow> jsstring \<Rightarrow> jsstring" where
  "with_env options fullCommand =
     (case options of
        None \<Rightarrow> fullCommand
      | Some opts \<Rightarrow>
          (case env opts of
             None \<Rightarrow> fullCommand
           | Some entries \<Rightarrow>
               if length entries > 0
               then join_str (js '' '') (map env_entry entries) @ js '' '' @ fullCommand
               else fullCommand))"

definition with_cwd :: "RunCommandOptions option \<Rightarrow> jsstring \<Rightarrow> jsstring" where
  "with_cwd options fullCommand =
     (case options of
        None \<Rightarrow> fullCommand
      | Some opts \<Rightarrow>
          (case cwd opts of
             None \<Rightarrow> fullCommand
           | Some dir \<Rightarrow>
               if dir \<noteq> []
               then js ''cd '' @ dquote @ escapeShellArg dir @ dquote @ js '' && '' @ fullCommand
               else fullCommand))"

definition with_background :: "RunCommandOptions option \<Rightarrow> jsstring \<Rightarrow> jsstring" where
  "with_background options fullCommand =
     (case options of
        None \<Rightarrow> fullCommand
      | Some opts \<Rightarrow>
          if background opts then js ''nohup '' @ fullCommand @ js '' > /dev/null 2>&1 &''
          else fullCommand)"

text \<open>The string handed to \<^verbatim>\<open>sh -c\<close>.\<close>

definition fullCommand :: "jsstring \<Rightarrow> RunCommandOptions option \<Rightarrow> jsstring" where
  "fullCommand command options =
     with_background options (with_cwd options (with_env options command))"

text \<open>
  \<open>startTime\<close> is the reading of \<^verbatim>\<open>Date.now()\<close> when the call begins, \<open>endTime\<close> the
  reading when the result is built. The \<^verbatim>\<open>catch\<close> block builds its result from the
  text of the value caught; when that value has no text, the \<^verbatim>\<open>TypeError\<close> of
  \<open>message_of\<close> is thrown from inside the block and leaves \<open>runCommand\<close>.
\<close>

definition runCommand ::
  "int \<Rightarrow> int \<Rightarrow> ModalSandbox \<Rightarrow> jsstring \<Rightarrow> RunCommandOptions option \<Rightarrow>
   event list \<times> (thrown + CommandResult)" where
  "runCommand startTime endTime modalSandbox command options =
     (case exec_collect (sandbox modalSandbox) [js ''sh'', js ''-c'', fullCommand command options] of
        (tr, Inr (out, err, code)) \<Rightarrow>
          (tr, Inr \<lparr>cmd_stdout = or_empty out, cmd_stderr = or_empty err,
                    cmd_exitCode = or_zero code, cmd_durationMs = endTime - startTime\<rparr>)
      | (tr, Inl error) \<Rightarrow>
          (case message_of error of
             Inl typeError \<Rightarrow> (tr, Inl typeError)
           | Inr text \<Rightarrow>
               (tr, Inr \<lparr>cmd_stdout = [], cmd_stderr = text,
                         cmd_exitCode = 127, cmd_durationMs = endTime - startTime\<rparr>)))"

section \<open>getInfo\<close>

datatype sandbox_status = Running | Stopped | Errored

record SandboxInfo =
  info_id :: jsstring
  info_provider :: jsstring
  info_runtime :: Runtime
  info_status :: sandbox_status
  info_createdAt :: int
  info_timeout :: int
  info_modalSandboxId :: jsstring
  info_realModalImplementation :: bool

text \<open>The status from \<^verbatim>\<open>poll()\<close>: \<open>None\<close> is \<^verbatim>\<open>null\<close>, the sandbox has not finished.\<close>

definition poll_status :: "thrown + int option \<Rightarrow> sandbox_status" where
  "poll_status pollResult =
     (case pollResult of
        Inl error \<Rightarrow> Running
      | Inr None \<Rightarrow> Running
      | Inr (Some c) \<Rightarrow> if c = 0 then Stopped else Errored)"

text \<open>\<open>now\<close> is the reading of the clock taken by \<^verbatim>\<open>new Date()\<close>.\<close>

definition getInfo :: "int \<Rightarrow> ModalSandbox \<Rightarrow> event list \<times> SandboxInfo" where
  "getInfo now modalSandbox =
     ([Poll (sb_ref (sandbox modalSandbox))],
      \<lparr>info_id = sandboxId modalSandbox,
       info_provider = js ''modal'',
       info_runtime = Node,
       info_status = poll_status (sb_poll (sandbox modalSandbox)),
       info_createdAt = now,
       info_timeout = 300000,
       info_modalSandboxId = sandboxId modalSandbox,
       info_realModalImplementation = True\<rparr>)"

section \<open>getUrl\<close>

text \<open>
  \<^verbatim>\<open>getUrl\<close> uses the class \<^verbatim>\<open>URL\<close> of the JavaScript platform, which follows the URL
  Standard of the WHATWG. A parsed URL is a record of its components; host, path, query
  and fragment are kept in the form in which the serialiser prints them, and so is the
  port, a 16-bit number, which the serialiser prints in decimal digits. The parser
  itself (\<^verbatim>\<open>new URL(url)\<close>, which throws when the string is no URL) is an argument of
  \<open>getUrl\<close>.
\<close>

record url =
  url_scheme :: jsstring
  url_username :: jsstring
  url_password :: jsstring
  url_host :: "jsstring option"
  url_port :: "jsstring option"
  url_path :: jsstring
  url_query :: "jsstring option"
  url_fragment :: "jsstring option"

text \<open>
  The setter of \<^verbatim>\<open>protocol\<close>: the value, followed by a colon, is run through the scheme
  states of the URL parser, with the URL to override. Tabs and newlines are removed
  first; the first character must be a letter; letters, digits, \<^verbatim>\<open>+\<close>, \<^verbatim>\<open>-\<close> and
  \<^verbatim>\<open>.\<close> are collected in lower case up to the first colon; any other character, or
  the end of the input, leaves the URL as it was. At the colon the scheme is replaced
  unless that would turn a special scheme into a non-special one or back, or give
  \<^verbatim>\<open>file\<close> to a URL with credentials or a port, or the URL is a \<^verbatim>\<open>file\<close> URL with an
  empty host; a port equal to the default port of the new scheme is dropped.
\<close>

definition is_alpha :: "nat \<Rightarrow> bool" where
  "is_alpha c = ((65 \<le> c \<and> c \<le> 90) \<or> (97 \<le> c \<and> c \<le> 122))"

definition is_scheme_char :: "nat \<Rightarrow> bool" where
  "is_scheme_char c = (is_alpha c \<or> (48 \<le> c \<and> c \<le> 57) \<or> c = 43 \<or> c = 45 \<or> c = 46)"

definition lowercase :: "nat \<Rightarrow> nat" where
  "lowercase c = (if 65 \<le> c \<and> c \<le> 90 then c + 32 else c)"

definition default_port :: "jsstring \<Rightarrow> jsstring option" where
  "default_port scheme =
     (if scheme = js ''ftp'' then Some (js ''21'')
      else if scheme = js ''http'' then Some (js ''80'')
      else if scheme = js ''https'' then Some (js ''443'')
      else if scheme = js ''ws'' then Some (js ''80'')
      else if scheme = js ''wss'' then Some (js ''443'')
      else None)"

definition is_special :: "jsstring \<Rightarrow> bool" where
  "is_special scheme = (scheme \<in> set [js ''ftp'', js ''file'', js ''http'', js ''https'', js ''ws'', js ''wss''])"

definition includes_credentials :: "url \<Rightarrow> bool" where
  "includes_credentials u = (url_username u \<noteq> [] \<or> url_password u \<noteq> [])"

definition change_scheme :: "url \<Rightarrow> jsstring \<Rightarrow> url" where
  "change_scheme u buffer =
     (if is_special (url_scheme u) \<and> \<not> is_special buffer then u
      else if \<not> is_special (url_scheme u) \<and> is_special buffer then u
      else if (includes_credentials u \<or> url_port u \<noteq> None) \<and> buffer = js ''file'' then u
      else if url_scheme u = js ''file'' \<and> url_host u = Some [] then u
      else if url_port u = default_port buffer
        then u\<lparr>url_scheme := buffer, url_port := None\<rparr>
        else u\<lparr>url_scheme := buffer\<rparr>)"

fun scheme_state :: "url \<Rightarrow> jsstring \<Rightarrow> jsstring \<Rightarrow> url" where
  "scheme_state u buffer [] = u"
| "scheme_state u buffer (c # cs) =
     (if is_scheme_char c then scheme_state u (buffer @ [lowercase c]) cs
      else if c = 58 then change_scheme u buffer
      else u)"

definition set_protocol :: "url \<Rightarrow> jsstring \<Rightarrow> url" where
  "set_protocol u v =
     (case filter (\<lambda>c. c \<noteq> 9 \<and> c \<noteq> 10 \<and> c \<noteq> 13) (v @ js '':'') of
        [] \<Rightarrow> u
      | c # cs \<Rightarrow> if is_alpha c then scheme_state u [lowercase c] cs else u)"

text \<open>The URL serialiser (\<^verbatim>\<open>urlObj.toString()\<close>).\<close>

definition serialize_url :: "url \<Rightarrow> jsstring" where
  "serialize_url u =
     url_scheme u @ js '':'' @
     (case url_host u of
        None \<Rightarrow> []
      | Some host \<Rightarrow>
          js ''//'' @
          (if includes_credentials u
           then url_username u @ (if url_password u \<noteq> [] then js '':'' @ url_password u else [])
                  @ js ''@''
           else []) @
          host @
          (case url_port u of None \<Rightarrow> [] | Some port \<Rightarrow> js '':'' @ port)) @
     url_path u @
     (case url_query u of None \<Rightarrow> [] | Some q \<Rightarrow> js ''?'' @ q) @
     (case url_fragment u of None \<Rightarrow> [] | Some f \<Rightarrow> js ''#'' @ f)"

text \<open>
  The options of \<^verbatim>\<open>getUrl\<close>. The code uses the number \<^verbatim>\<open>options.port\<close> only through
  its conversion to a string, as property key of the tunnel map
  (\<^verbatim>\<open>tunnels[options.port]\<close>) and inside template literals: \<open>opt_port\<close> is that string.
  Then the body of the \<^verbatim>\<open>try\<close> block of \<^verbatim>\<open>getUrl\<close>, and \<^verbatim>\<open>getUrl\<close> with its
  \<^verbatim>\<open>catch\<close>.
\<close>

record UrlOptions =
  opt_port :: jsstring
  opt_protocol :: "jsstring option"

definition getUrl_try ::
  "(jsstring \<Rightarrow> thrown + url) \<Rightarrow> ModalSandbox \<Rightarrow> UrlOptions \<Rightarrow> thrown + jsstring" where
  "getUrl_try parseURL modalSandbox options =
     (case sb_tunnels (sandbox modalSandbox) of
        Inl e \<Rightarrow> Inl e
      | Inr tunnels \<Rightarrow>
          (case map_of tunnels (opt_port options) of
             None \<Rightarrow>
               Inl (JSError (js ''No tunnel found for port '' @ opt_port options
                      @ js ''. Available ports: '' @ join_str (js '', '') (map fst tunnels)))
           | Some url \<Rightarrow>
               (case opt_protocol options of
                  None \<Rightarrow> Inr url
                | Some protocol \<Rightarrow>
                    if protocol \<noteq> []
                    then (case parseURL url of
                            Inl e \<Rightarrow> Inl e
                          | Inr urlObj \<Rightarrow>
                              Inr (serialize_url (set_protocol urlObj (protocol @ js '':''))))
                    else Inr url)))"

definition getUrl ::
  "(jsstring \<Rightarrow> thrown + url) \<Rightarrow> ModalSandbox \<Rightarrow> UrlOptions \<Rightarrow>
   event list \<times> (thrown + jsstring)" where
  "getUrl parseURL modalSandbox options =
     ([Tunnels (sb_ref (sandbox modalSandbox))],
      case getUrl_try parseURL modalSandbox options of
        Inr url \<Rightarrow> Inr url
      | Inl error \<Rightarrow>
          Inl (JSError (js ''Failed to get Modal tunnel URL for port '' @ opt_port options
                 @ js '': '' @ error_text error)))"

text \<open>
  The terms in which the behaviour of the setter is stated: a valid scheme name, a
  scheme that the setter accepts for a given URL, and two URLs that agree on every
  component other than scheme and port.
\<close>

definition valid_scheme :: "jsstring \<Rightarrow> bool" where
  "valid_scheme p = (case p of [] \<Rightarrow> False | c # cs \<Rightarrow> is_alpha c \<and> list_all is_scheme_char cs)"

definition can_change :: "url \<Rightarrow> jsstring \<Rightarrow> bool" where
  "can_change u s =
     (is_special (url_scheme u) = is_special s \<and>
      \<not> ((includes_credentials u \<or> url_port u \<noteq> None) \<and> s = js ''file'') \<and>
      \<not> (url_scheme u = js ''file'' \<and> url_host u = Some []))"

definition same_but_scheme_port :: "url \<Rightarrow> url \<Rightarrow> bool" where
  "same_but_scheme_port u u' =
     (url_username u' = url_username u \<and> url_password u' = url_password u \<and>
      url_host u' = url_host u \<and> url_path u' = url_path u \<and>
      url_query u' = url_query u \<and> url_fragment u' = url_fragment u)"

section \<open>The filesystem operations\<close>

text \<open>
  The primary path of \<^verbatim>\<open>readFile\<close>: open, read if the handle can read, close if it can
  close. \<open>decode\<close> stands for \<^verbatim>\<open>new TextDecoder().decode\<close>.
\<close>

definition file_read_step ::
  "(nat list \<Rightarrow> jsstring) \<Rightarrow> file_obj option \<Rightarrow> event list \<times> (thrown + jsstring)" where
  "file_read_step decode file =
     (case file of
        None \<Rightarrow> ([], Inr [])
      | Some f \<Rightarrow>
          (case f_read f of
             None \<Rightarrow> ([], Inr [])
           | Some (Inl e) \<Rightarrow> ([FileRead], Inl e)
           | Some (Inr (Text s)) \<Rightarrow> ([FileRead], Inr s)
           | Some (Inr (Bytes b)) \<Rightarrow> ([FileRead], Inr (decode b))))"


definition file_close_step :: "file_obj option \<Rightarrow> event list \<times> (thrown + unit)" where
  "file_close_step file =
     (case file of
        None \<Rightarrow> ([], Inr ())
      | Some f \<Rightarrow>
          (case f_close f of
             None \<Rightarrow> ([], Inr ())
           | Some r \<Rightarrow> ([FileClose], r)))"

definition readFile_primary ::
  "(nat list \<Rightarrow> jsstring) \<Rightarrow> sandbox_obj \<Rightarrow> jsstring \<Rightarrow> event list \<times> (thrown + jsstring)" where
  "readFile_primary decode sb path =
     (case sb_open sb path of
        Inl e \<Rightarrow> ([Open (sb_ref sb) path], Inl e)
      | Inr file \<Rightarrow>
          (case file_read_step decode file of
             (tr1, Inl e) \<Rightarrow> (Open (sb_ref sb) path # tr1, Inl e)
           | (tr1, Inr content) \<Rightarrow>
               (case file_close_step file of
                  (tr2, Inl e) \<Rightarrow> (Open (sb_ref sb) path # tr1 @ tr2, Inl e)
                | (tr2, Inr _) \<Rightarrow> (Open (sb_ref sb) path # tr1 @ tr2, Inr content))))"

text \<open>
  The fallback of \<^verbatim>\<open>readFile\<close>: \<^verbatim>\<open>cat path\<close>. A template literal renders an absent
  text as \<^verbatim>\<open>undefined\<close>; \<^verbatim>\<open>content.trim()\<close> on an absent text throws a \<^verbatim>\<open>TypeError\<close>.
\<close>

definition template_text :: "jsstring option \<Rightarrow> jsstring" where
  "template_text t = (case t of None \<Rightarrow> js ''undefined'' | Some s \<Rightarrow> s)"

definition readFile_fallback ::
  "sandbox_obj \<Rightarrow> jsstring \<Rightarrow> event list \<times> (rejection + jsstring)" where
  "readFile_fallback sb path =
     (case exec_collect sb [js ''cat'', path] of
        (tr, Inl e) \<Rightarrow> (tr, Inl e)
      | (tr, Inr (content, err, exitCode)) \<Rightarrow>
          if exitCode \<noteq> Some 0
          then (tr, Inl (Printable (JSError (js ''cat failed: '' @ template_text err))))
          else (case content of
                  None \<Rightarrow>
                    (tr, Inl (Printable (JSError (js ''Cannot read properties of undefined''))))
                | Some c \<Rightarrow> (tr, Inr (trim c))))"

definition readFile ::
  "(nat list \<Rightarrow> jsstring) \<Rightarrow> ModalSandbox \<Rightarrow> jsstring \<Rightarrow> event list \<times> (thrown + jsstring)" where
  "readFile decode modalSandbox path =
     (case readFile_primary decode (sandbox modalSandbox) path of
        (tr, Inr content) \<Rightarrow> (tr, Inr content)
      | (tr, Inl error) \<Rightarrow>
          (case readFile_fallback (sandbox modalSandbox) path of
             (tr', Inr content) \<Rightarrow> (tr @ tr', Inr content)
           | (tr', Inl fallbackError) \<Rightarrow>
               (tr @ tr',
                Inl (JSError (js ''Failed to read file '' @ path @ js '': '' @ error_text error)))))"





text \<open>
  \<^verbatim>\<open>exists\<close>: the probe \<^verbatim>\<open>test -e path\<close> is started without piped streams and only
  waited for.
\<close>

definition exists_path :: "ModalSandbox \<Rightarrow> jsstring \<Rightarrow> event list \<times> (thrown + bool)" where
  "exists_path modalSandbox path =
     (case sb_exec (sandbox modalSandbox) [js ''test'', js ''-e'', path] of
        Inl error \<Rightarrow>
          ([Exec (sb_ref (sandbox modalSandbox)) [js ''test'', js ''-e'', path]], Inr False)
      | Inr p \<Rightarrow>
          (case wait p of
             Inl error \<Rightarrow>
               ([Exec (sb_ref (sandbox modalSandbox)) [js ''test'', js ''-e'', path], Wait],
                Inr False)
           | Inr exitCode \<Rightarrow>
               ([Exec (sb_ref (sandbox modalSandbox)) [js ''test'', js ''-e'', path], Wait],
                Inr (exitCode = Some 0))))"

section \<open>How the shell reads a double-quoted value\<close>

text \<open>
  \<open>runCommand\<close> places each escaped value between double quotes in a string given to
  \<^verbatim>\<open>sh -c\<close>. What the shell makes of such a string is fixed by its quoting rules
  (POSIX, Shell Command Language, 2.2): outside quotes a blank ends the word and a
  double quote opens a quoted part; inside double quotes every character stands for
  itself except the closing quote, \<^verbatim>\<open>$\<close> and the backquote, which start an expansion,
  and the backslash, which escapes \<^verbatim>\<open>$\<close>, backquote, double quote and backslash, joins
  lines before a newline and stands for itself elsewhere.

  \<open>read_word quoted s\<close> reads one word from \<open>s\<close>, starting outside (\<open>False\<close>) or inside
  (\<open>True\<close>) double quotes, and returns the text the word stands for and the rest of the
  input, from the blank that ended the word. It returns \<open>None\<close> when the word is not just
  literal text: on an expansion, on a character that is special outside quotes, or when
  the input ends inside the quotes.
\<close>

definition is_plain :: "nat \<Rightarrow> bool" where
  "is_plain c = (c \<notin> set (js ''|&;<>()$`'') \<and> c \<noteq> 92 \<and> c \<noteq> 34 \<and> c \<noteq> 39 \<and>
                 c \<noteq> 32 \<and> c \<noteq> 9 \<and> c \<noteq> 10 \<and> c \<notin> set (js ''*?[#~''))"

fun add_char :: "nat \<Rightarrow> (jsstring \<times> jsstring) option \<Rightarrow> (jsstring \<times> jsstring) option" where
  "add_char c None = None"
| "add_char c (Some (w, r)) = Some (c # w, r)"

fun read_word :: "bool \<Rightarrow> jsstring \<Rightarrow> (jsstring \<times> jsstring) option" where
  "read_word quoted [] = (if quoted then None else Some ([], []))"
| "read_word False (c # cs) =
     (if c = 32 then Some ([], c # cs)
      else if c = 34 then read_word True cs
      else if is_plain c then add_char c (read_word False cs)
      else None)"
| "read_word True [c] =
     (if c = 34 then Some ([], []) else None)"
| "read_word True (c # d # ds) =
     (if c = 34 then read_word False (d # ds)
      else if c = 36 \<or> c = 96 then None
      else if c = 92 then
        (if d = 36 \<or> d = 96 \<or> d = 34 \<or> d = 92 then add_char d (read_word True ds)
         else if d = 10 then read_word True ds
         else add_char c (read_word True (d # ds)))
      else add_char c (read_word True (d # ds)))"

text \<open>\<open>read_words n s\<close> reads \<open>n\<close> words separated by single blanks.\<close>

fun read_words :: "nat \<Rightarrow> jsstring \<Rightarrow> (jsstring list \<times> jsstring) option" where
  "read_words 0 s = Some ([], s)"
| "read_words (Suc n) s =
     (case read_word False s of
        None \<Rightarrow> None
      | Some (w, []) \<Rightarrow> (if n = 0 then Some ([w], []) else None)
      | Some (w, c # r) \<Rightarrow>
          (case read_words n r of None \<Rightarrow> None | Some (ws, r') \<Rightarrow> Some (w # ws, r')))"

text \<open>The assignment word \<^verbatim>\<open>KEY=value\<close> that the shell is to read for an entry of \<open>env\<close>.\<close>

definition assignment :: "jsstring \<times> jsstring \<Rightarrow> jsstring" where
  "assignment kv = fst kv @ js ''='' @ snd kv"

section \<open>Sample sandboxes\<close>

text \<open>
  Concrete capability objects, on which the operations are run in the examples: a
  process with given texts and exit code, a sandbox whose \<^verbatim>\<open>exec\<close> and \<^verbatim>\<open>open\<close> have
  given outcomes (a process, or a failure that has a text), a handle on it, and an app
  that creates a given sandbox.
\<close>

definition sample_process :: "jsstring \<Rightarrow> jsstring \<Rightarrow> int \<Rightarrow> process" where
  "sample_process out err n = \<lparr>readText = Inr (Some out, Some err), wait = Inr (Some n)\<rparr>"

definition sample_sandbox ::
  "nat \<Rightarrow> (thrown + process) \<Rightarrow> (thrown + file_obj option) \<Rightarrow> sandbox_obj" where
  "sample_sandbox r ex op =
     \<lparr>sb_ref = r,
      sb_exec = (\<lambda>argv. case ex of Inl e \<Rightarrow> Inl (Printable e) | Inr p \<Rightarrow> Inr p),
      sb_terminate = Inr (), sb_poll = Inr None,
      sb_tunnels = Inr [], sb_open = (\<lambda>path. op)\<rparr>"

definition sample_handle :: "(thrown + process) \<Rightarrow> (thrown + file_obj option) \<Rightarrow> ModalSandbox" where
  "sample_handle ex op = \<lparr>sandbox = sample_sandbox 1 ex op, sandboxId = js ''sb-1''\<rparr>"

definition sample_app :: "sandbox_obj \<Rightarrow> modal_app" where
  "sample_app sb = \<lparr>imageFromRegistry = (\<lambda>name. Inr ()), createSandbox = Inr sb\<rparr>"

definition sample_file :: "jsstring \<Rightarrow> file_obj" where
  "sample_file content =
     \<lparr>f_read = Some (Inr (Text content)), f_write = Some (\<lambda>c. Inr ()), f_close = Some (Inr ())\<rparr>"

definition py_lookup :: "jsstring \<Rightarrow> int \<Rightarrow> thrown + modal_app" where
  "py_lookup err n = Inr (sample_app (sample_sandbox 2 (Inr (sample_process [] err n)) (Inr None)))"

text \<open>
  A handle whose \<^verbatim>\<open>exec\<close> rejects with a value that has no string conversion, and a file
  handle without a \<^verbatim>\<open>read\<close> method.
\<close>

definition unprintable_handle :: ModalSandbox where
  "unprintable_handle =
     \<lparr>sandbox = (sample_sandbox 1 (Inl (JSError [])) (Inr None))
                  \<lparr>sb_exec := (\<lambda>argv. Inl Unprintable)\<rparr>,
      sandboxId = js ''sb-1''\<rparr>"

definition unreadable_file :: file_obj where
  "unreadable_file = \<lparr>f_read = None, f_write = None, f_close = Some (Inr ())\<rparr>"

text \<open>
  Options whose values try to leave the quotes, and options with an \<open>env\<close> key that
  contains a double quote.
\<close>

definition injecting_options :: RunCommandOptions where
  "injecting_options =
     \<lparr>env = Some [(js ''A='' @ dquote, js '';id;#'')], cwd = None, background = False\<rparr>"

definition sample_options :: RunCommandOptions where
  "sample_options =
     \<lparr>env = Some [(js ''MSG'', js ''$(reboot)'' @ dquote @ js ''; id'')],
      cwd = Some (js ''/tmp/a'' @ dquote @ js ''; rm -rf /; echo '' @ dquote),
      background = False\<rparr>"

text \<open>
  A tunnel as Modal gives one: the URL \<^verbatim>\<open>https://ab12.modal.host\<close> for port 8080, and
  what \<^verbatim>\<open>new URL\<close> makes of that string.
\<close>

definition sample_url :: url where
  "sample_url =
     \<lparr>url_scheme = js ''https'', url_username = [], url_password = [],
      url_host = Some (js ''ab12.modal.host''), url_port = None, url_path = js ''/'',
      url_query = None, url_fragment = None\<rparr>"

definition sample_parse :: "jsstring \<Rightarrow> thrown + url" where
  "sample_parse s =
     (if s = js ''https://ab12.modal.host'' then Inr sample_url
      else Inl (JSError (js ''Invalid URL'')))"

definition tunnel_handle :: ModalSandbox where
  "tunnel_handle =
     \<lparr>sandbox = (sample_sandbox 1 (Inl (JSError [])) (Inr None))
                  \<lparr>sb_tunnels := Inr [(js ''8080'', js ''https://ab12.modal.host'')]\<rparr>,
      sandboxId = js ''sb-1''\<rparr>"

section \<open>Substring search\<close>

lemma starts_with_iff: "starts_with s m = (\<exists>b. s = m @ b)"
  by (induction s m rule: starts_with.induct) auto

lemma includes_str_occurs: "includes_str s m = occurs_in m s"
proof (induction s)
  case Nil
  show ?case by (cases m) (auto simp: occurs_in_def)
next
  case (Cons c cs)
  have "occurs_in m (c # cs) = (starts_with (c # cs) m \<or> occurs_in m cs)"
  proof
    assume "occurs_in m (c # cs)"
    then obtain a b where ab: "c # cs = a @ m @ b"
      unfolding occurs_in_def by blast
    show "starts_with (c # cs) m \<or> occurs_in m cs"
    proof (cases a)
      case Nil
      with ab show ?thesis by (auto simp: starts_with_iff)
    next
      case (Cons x a')
      with ab have "cs = a' @ m @ b" by simp
      then show ?thesis unfolding occurs_in_def by blast
    qed
  next
    assume "starts_with (c # cs) m \<or> occurs_in m cs"
    then show "occurs_in m (c # cs)"
    proof
      assume "starts_with (c # cs) m"
      then obtain b where "c # cs = [] @ m @ b" by (auto simp: starts_with_iff)
      then show ?thesis unfolding occurs_in_def by blast
    next
      assume "occurs_in m cs"
      then obtain a b where "cs = a @ m @ b" unfolding occurs_in_def by blast
      then have "c # cs = (c # a) @ m @ b" by simp
      then show ?thesis unfolding occurs_in_def by blast
    qed
  qed
  with Cons show ?case by simp
qed

lemma includes_str_insert: "includes_str (a @ m @ b) m"
  unfolding includes_str_occurs occurs_in_def by blast

lemma detectRuntime_node:
  "(\<exists>m \<in> set node_markers. includes_str code m) \<Longrightarrow> detectRuntime code = Node"
  by (auto simp: detectRuntime_def node_markers_def)

lemma detectRuntime_python:
  "\<not> (\<exists>m \<in> set node_markers. includes_str code m) \<Longrightarrow>
   (\<exists>m \<in> set python_markers. includes_str code m) \<Longrightarrow> detectRuntime code = Python"
  by (auto simp: detectRuntime_def node_markers_def python_markers_def)

lemma detectRuntime_default:
  "\<not> (\<exists>m \<in> set node_markers. includes_str code m) \<Longrightarrow>
   \<not> (\<exists>m \<in> set python_markers. includes_str code m) \<Longrightarrow> detectRuntime code = Node"
  by (auto simp: detectRuntime_def node_markers_def python_markers_def)

text \<open>
  Claim C5. \<open>detectRuntime\<close> is a function of the code string alone (hence total and
  deterministic) and only looks for the literal markers as substrings: a string with a
  Node marker inserted at any position is classified Node, also when a Python marker
  occurs in it as well; a string with a Python marker inserted at any position and no
  Node marker anywhere is classified Python; a string with no marker of either family
  gets the default, Node.
\<close>

theorem detectRuntime_markers:
  "(\<forall>m a b. m \<in> set node_markers \<longrightarrow> detectRuntime (a @ m @ b) = Node) \<and>
   (\<forall>m a b. m \<in> set python_markers \<and> (\<forall>n \<in> set node_markers. \<not> occurs_in n (a @ m @ b))
       \<longrightarrow> detectRuntime (a @ m @ b) = Python) \<and>
   (\<forall>m n a b c. m \<in> set node_markers \<and> n \<in> set python_markers
       \<longrightarrow> detectRuntime (a @ m @ b @ n @ c) = Node \<and> detectRuntime (a @ n @ b @ m @ c) = Node) \<and>
   (\<forall>code. (\<forall>n \<in> set node_markers. \<not> occurs_in n code) \<and>
            (\<forall>n \<in> set python_markers. \<not> occurs_in n code)
       \<longrightarrow> detectRuntime code = Node)"
proof (intro conjI allI impI)
  fix m a b assume "m \<in> set node_markers"
  then show "detectRuntime (a @ m @ b) = Node"
    using includes_str_insert [of a m b] by (intro detectRuntime_node) blast
next
  fix m a b
  assume h: "m \<in> set python_markers \<and> (\<forall>n \<in> set node_markers. \<not> occurs_in n (a @ m @ b))"
  then have "\<not> (\<exists>n \<in> set node_markers. includes_str (a @ m @ b) n)"
    by (simp add: includes_str_occurs)
  moreover have "\<exists>n \<in> set python_markers. includes_str (a @ m @ b) n"
    using h includes_str_insert [of a m b] by blast
  ultimately show "detectRuntime (a @ m @ b) = Python"
    by (rule detectRuntime_python)
next
  fix m n a b c
  assume h: "m \<in> set node_markers \<and> n \<in> set python_markers"
  show "detectRuntime (a @ m @ b @ n @ c) = Node"
    using h includes_str_insert [of a m "b @ n @ c"] by (intro detectRuntime_node) auto
next
  fix m n a b c
  assume h: "m \<in> set node_markers \<and> n \<in> set python_markers"
  have "includes_str ((a @ n @ b) @ m @ c) m" by (rule includes_str_insert)
  then show "detectRuntime (a @ n @ b @ m @ c) = Node"
    using h by (intro detectRuntime_node) auto
next
  fix code
  assume "(\<forall>n \<in> set node_markers. \<not> occurs_in n code) \<and>
          (\<forall>n \<in> set python_markers. \<not> occurs_in n code)"
  then show "detectRuntime code = Node"
    by (intro detectRuntime_default) (simp_all add: includes_str_occurs)
qed

theorem detectRuntime_markers_witness:
  "js ''console.log'' \<in> set node_markers \<and>
   js ''print('' \<in> set python_markers \<and>
   detectRuntime (js ''let x = 1; '' @ js ''console.log'' @ js ''(x)'') = Node \<and>
   detectRuntime (js ''y = 2; '' @ js ''print('' @ js ''y)'') = Python \<and>
   detectRuntime (js ''a; '' @ js ''console.log'' @ js ''(1); '' @ js ''print('' @ js ''2)'') = Node \<and>
   detectRuntime (js ''a; '' @ js ''print('' @ js ''2); '' @ js ''console.log'' @ js ''(1)'') = Node \<and>
   detectRuntime (js ''1 + 1'') = Node"
proof -
  have n: "js ''console.log'' \<in> set node_markers"
    by (simp add: node_markers_def)
  have p: "js ''print('' \<in> set python_markers"
    by (simp add: python_markers_def)
  have clean: "\<forall>n \<in> set node_markers. \<not> occurs_in n (js ''y = 2; '' @ js ''print('' @ js ''y)'')"
    by (simp add: node_markers_def includes_str_occurs [symmetric])
  have none: "(\<forall>n \<in> set node_markers. \<not> occurs_in n (js ''1 + 1'')) \<and>
              (\<forall>n \<in> set python_markers. \<not> occurs_in n (js ''1 + 1''))"
    by (simp add: node_markers_def python_markers_def includes_str_occurs [symmetric])
  note T = detectRuntime_markers
  from T n have "detectRuntime (js ''let x = 1; '' @ js ''console.log'' @ js ''(x)'') = Node"
    by blast
  moreover from T p clean have "detectRuntime (js ''y = 2; '' @ js ''print('' @ js ''y)'') = Python"
    by blast
  moreover from T n p have
    "detectRuntime (js ''a; '' @ js ''console.log'' @ js ''(1); '' @ js ''print('' @ js ''2)'') = Node"
    "detectRuntime (js ''a; '' @ js ''print('' @ js ''2); '' @ js ''console.log'' @ js ''(1)'') = Node"
    by blast+
  moreover from T none have "detectRuntime (js ''1 + 1'') = Node"
    by blast
  ultimately show ?thesis using n p by blast
qed

section \<open>Running commands\<close>

lemma exec_collect_ok:
  "sb_exec sb command = Inr p \<Longrightarrow> readText p = Inr (out, err) \<Longrightarrow> wait p = Inr c \<Longrightarrow>
   exec_collect sb command = ([Exec (sb_ref sb) command, ReadText, Wait], Inr (out, err, c))"
  by (simp add: exec_collect_def)

lemma runCommand_failure_result:
  "(\<forall>e. sb_exec (sandbox ms) [js ''sh'', js ''-c'', fullCommand command options] = Inl (Printable e)
      \<longrightarrow> snd (runCommand t0 t1 ms command options)
            = Inr \<lparr>cmd_stdout = [], cmd_stderr = error_text e, cmd_exitCode = 127,
                   cmd_durationMs = t1 - t0\<rparr>) \<and>
   (\<forall>p e. sb_exec (sandbox ms) [js ''sh'', js ''-c'', fullCommand command options] = Inr p \<and>
          readText p = Inl (Printable e)
      \<longrightarrow> snd (runCommand t0 t1 ms command options)
            = Inr \<lparr>cmd_stdout = [], cmd_stderr = error_text e, cmd_exitCode = 127,
                   cmd_durationMs = t1 - t0\<rparr>) \<and>
   (\<forall>p texts e. sb_exec (sandbox ms) [js ''sh'', js ''-c'', fullCommand command options] = Inr p \<and>
          readText p = Inr texts \<and> wait p = Inl (Printable e)
      \<longrightarrow> snd (runCommand t0 t1 ms command options)
            = Inr \<lparr>cmd_stdout = [], cmd_stderr = error_text e, cmd_exitCode = 127,
                   cmd_durationMs = t1 - t0\<rparr>)"
  by (auto simp: runCommand_def exec_collect_def split: sum.splits prod.splits)

lemma runCommand_failure_example:
  "snd (runCommand 100 142 (sample_handle (Inl (JSError (js ''spawn failed''))) (Inr None))
          (js ''no-such-utility'') None)
     = Inr \<lparr>cmd_stdout = [], cmd_stderr = js ''spawn failed'', cmd_exitCode = 127,
            cmd_durationMs = 42\<rparr>"
  by (simp add: runCommand_def exec_collect_def sample_handle_def sample_sandbox_def)

text \<open>
  Claim C3. \<open>runCommand\<close> is never to throw: every failure of the pipeline is to come
  back as a result with exit code 127. The \<^verbatim>\<open>catch\<close> block of the source builds that
  result with \<^verbatim>\<open>String(error)\<close> for a value that is no \<^verbatim>\<open>Error\<close>. Here \<^verbatim>\<open>exec\<close> rejects
  with a value that has no string conversion: the conversion throws inside the
  \<^verbatim>\<open>catch\<close> block, and \<open>runCommand\<close> throws that \<^verbatim>\<open>TypeError\<close> instead of returning a
  result.
\<close>

theorem runCommand_throws_from_catch:
  "runCommand 100 142 unprintable_handle (js ''ls'') None
     = ([Exec 1 [js ''sh'', js ''-c'', js ''ls'']],
        Inl (JSError (js ''Cannot convert object to primitive value'')))"
  by (simp add: runCommand_def exec_collect_def unprintable_handle_def sample_sandbox_def
      fullCommand_def with_background_def with_cwd_def with_env_def)

section \<open>Running code\<close>

lemma syntax_error_prefix: "includes_str (js ''Syntax error: '' @ x) (js ''Syntax error'')"
proof -
  have "js ''Syntax error: '' @ x = [] @ js ''Syntax error'' @ (js '': '' @ x)" by simp
  then show ?thesis by (metis includes_str_insert)
qed

lemma runCode_catch_syntax:
  "runCode_catch (Printable (JSError (js ''Syntax error: '' @ x)))
     = JSError (js ''Syntax error: '' @ x)"
  using syntax_error_prefix [of x] by (simp add: runCode_catch_def)

text \<open>
  Claim C4. When the process of \<open>runCode\<close> exits with a non-zero status: if the
  captured stderr contains \<^verbatim>\<open>SyntaxError\<close> or \<^verbatim>\<open>invalid syntax\<close>, \<open>runCode\<close> throws
  an error whose message is \<^verbatim>\<open>Syntax error: \<close> followed by the trimmed stderr, and the
  catch block passes it on unwrapped; otherwise \<open>runCode\<close> returns a result that
  carries the exit code.
\<close>

theorem runCode_nonzero_exit:
  assumes sel: "select_sandbox lookup ms code (case runtime of Some r \<Rightarrow> r | None \<Rightarrow> detectRuntime code)
                  = (tr1, Inr (sb, command, cleanup))"
    and ex: "sb_exec sb command = Inr p"
    and rd: "readText p = Inr (out, err)"
    and wt: "wait p = Inr (Some n)"
    and nz: "n \<noteq> 0"
  shows "if \<exists>s. err = Some s \<and> (occurs_in (js ''SyntaxError'') s \<or> occurs_in (js ''invalid syntax'') s)
         then snd (runCode lookup ms code runtime)
                = Inl (JSError (js ''Syntax error: '' @ trim (or_empty err)))
         else \<exists>r. snd (runCode lookup ms code runtime) = Inr r \<and> code_exitCode r = n"
proof -
  note ec = exec_collect_ok [OF ex rd wt]
  show ?thesis
  proof (cases "is_syntax_failure (Some n) err")
    case True
    then have c: "\<exists>s. err = Some s \<and> (occurs_in (js ''SyntaxError'') s \<or> occurs_in (js ''invalid syntax'') s)"
      by (auto simp: is_syntax_failure_def includes_str_occurs split: option.splits)
    have "snd (runCode lookup ms code runtime)
            = Inl (runCode_catch (Printable (JSError (js ''Syntax error: '' @ trim (or_empty err)))))"
      using sel ec True by (simp add: runCode_def runCode_try_def Let_def)
    with c show ?thesis by (simp only: runCode_catch_syntax if_True)
  next
    case False
    have ne: "\<not> occurs_in m []" if "m \<noteq> []" for m :: jsstring
      using that by (auto simp: occurs_in_def)
    from False nz have c: "\<not> (\<exists>s. err = Some s \<and> (occurs_in (js ''SyntaxError'') s \<or> occurs_in (js ''invalid syntax'') s))"
      by (auto simp: is_syntax_failure_def includes_str_occurs ne split: option.splits)
    have "\<exists>r. snd (runCode lookup ms code runtime) = Inr r \<and> code_exitCode r = n"
      using sel ec False by (simp add: runCode_def runCode_try_def Let_def)
    with c show ?thesis by (simp only: if_False)
  qed
qed

theorem runCode_nonzero_exit_witness:
  "snd (runCode (py_lookup (js ''  SyntaxError: invalid syntax'' @ [10]) 1)
          (sample_handle (Inl (JSError [])) (Inr None)) (js ''print('') (Some Python))
     = Inl (JSError (js ''Syntax error: SyntaxError: invalid syntax'')) \<and>
   (\<exists>r. snd (runCode (py_lookup (js ''NameError: x'') 3)
          (sample_handle (Inl (JSError [])) (Inr None)) (js ''print(x)'') (Some Python)) = Inr r \<and>
        code_exitCode r = 3)"
proof -
  let ?ms = "sample_handle (Inl (JSError [])) (Inr None)"
  let ?e1 = "js ''  SyntaxError: invalid syntax'' @ [10]"
  let ?sb1 = "sample_sandbox 2 (Inr (sample_process [] ?e1 1)) (Inr None)"
  let ?e2 = "js ''NameError: x''"
  let ?sb2 = "sample_sandbox 2 (Inr (sample_process [] ?e2 3)) (Inr None)"
  have sel1: "select_sandbox (py_lookup ?e1 1) ?ms (js ''print('')
                 (case Some Python of Some r \<Rightarrow> r | None \<Rightarrow> detectRuntime (js ''print(''))
               = ([AppLookup, ImageFromRegistry (js ''python:3.13-slim''), CreateSandbox],
                  Inr (?sb1, [js ''python3'', js ''-c'', js ''print(''], True))"
    by (simp add: select_sandbox_def py_lookup_def sample_app_def)
  have sel2: "select_sandbox (py_lookup ?e2 3) ?ms (js ''print(x)'')
                 (case Some Python of Some r \<Rightarrow> r | None \<Rightarrow> detectRuntime (js ''print(x)''))
               = ([AppLookup, ImageFromRegistry (js ''python:3.13-slim''), CreateSandbox],
                  Inr (?sb2, [js ''python3'', js ''-c'', js ''print(x)''], True))"
    by (simp add: select_sandbox_def py_lookup_def sample_app_def)
  have ex1: "sb_exec ?sb1 argv = Inr (sample_process [] ?e1 1)" for argv
    by (simp add: sample_sandbox_def)
  have ex2: "sb_exec ?sb2 argv = Inr (sample_process [] ?e2 3)" for argv
    by (simp add: sample_sandbox_def)
  have rd: "readText (sample_process [] e n) = Inr (Some [], Some e)"
    and wt: "wait (sample_process [] e n) = Inr (Some n)" for e n
    by (simp_all add: sample_process_def)
  have syn: "\<exists>s. Some ?e1 = Some s \<and> (occurs_in (js ''SyntaxError'') s \<or> occurs_in (js ''invalid syntax'') s)"
    by (simp add: includes_str_occurs [symmetric])
  have nosyn: "\<not> (\<exists>s. Some ?e2 = Some s \<and> (occurs_in (js ''SyntaxError'') s \<or> occurs_in (js ''invalid syntax'') s))"
    by (simp add: includes_str_occurs [symmetric])
  have tr: "trim (or_empty (Some ?e1)) = js ''SyntaxError: invalid syntax''"
    by (simp add: trim_def is_ws_def)
  from runCode_nonzero_exit [OF sel1 ex1 rd wt] syn
  have "snd (runCode (py_lookup ?e1 1) ?ms (js ''print('') (Some Python))
          = Inl (JSError (js ''Syntax error: '' @ trim (or_empty (Some ?e1))))"
    by simp
  moreover
  from runCode_nonzero_exit [OF sel2 ex2 rd wt] nosyn
  have "\<exists>r. snd (runCode (py_lookup ?e2 3) ?ms (js ''print(x)'') (Some Python)) = Inr r \<and> code_exitCode r = 3"
    by simp
  ultimately show ?thesis by (simp only: tr) simp
qed


lemma runCode_cleanup_after_wait:
  assumes "select_sandbox lookup ms code (case runtime of Some r \<Rightarrow> r | None \<Rightarrow> detectRuntime code)
                  = (tr1, Inr (sb, command, True))"
    and "sb_ref sb \<noteq> sb_ref (sandbox ms)"
    and "sb_exec sb command = Inr p" "readText p = Inr (out, err)" "wait p = Inr c"
  shows "Terminate (sb_ref sb) \<in> set (fst (runCode lookup ms code runtime))"
  using assms exec_collect_ok [OF assms(3,4,5)]
  by (simp add: runCode_def runCode_try_def Let_def)

lemma runCode_no_cleanup_on_failure:
  assumes "select_sandbox lookup ms code (case runtime of Some r \<Rightarrow> r | None \<Rightarrow> detectRuntime code)
                  = (tr1, Inr (sb, command, True))"
    and "exec_collect sb command = (tr2, Inl e)"
  shows "fst (runCode lookup ms code runtime) = tr1 @ tr2"
    and "CreateSandbox \<in> set tr1" and "\<forall>r. Terminate r \<notin> set (tr1 @ tr2)"
  using assms
  by (auto simp add: runCode_def runCode_try_def Let_def select_sandbox_def exec_collect_def
      split: if_splits sum.splits prod.splits)

text \<open>
  Claim C2. The auxiliary Python sandbox of \<open>runCode\<close> is to be terminated on every
  exit path. The source terminates it only after \<^verbatim>\<open>exec\<close>, the reading of the streams
  and \<^verbatim>\<open>wait\<close> have all succeeded. Here the Python sandbox is created and then its
  \<^verbatim>\<open>exec\<close> rejects, or the reading of the streams, or \<^verbatim>\<open>wait\<close>: each time \<open>runCode\<close>
  throws the wrapped failure, and the trace of remote calls ends with the call that
  failed, without any termination of the sandbox created.
\<close>

theorem runCode_exec_failure_leaks:
  "runCode (Inr (sample_app (sample_sandbox 2 (Inl (JSError (js ''boom''))) (Inr None))))
     (sample_handle (Inl (JSError (js ''unused''))) (Inr None)) (js ''print(1)'') (Some Python)
   = ([AppLookup, ImageFromRegistry (js ''python:3.13-slim''), CreateSandbox,
       Exec 2 [js ''python3'', js ''-c'', js ''print(1)'']],
      Inl (JSError (js ''Modal execution failed: boom''))) \<and>
   runCode (Inr (sample_app (sample_sandbox 2
              (Inr \<lparr>readText = Inl (Printable (JSError (js ''stream closed''))),
                     wait = Inr (Some 0)\<rparr>)
              (Inr None))))
     (sample_handle (Inl (JSError (js ''unused''))) (Inr None)) (js ''print(1)'') (Some Python)
   = ([AppLookup, ImageFromRegistry (js ''python:3.13-slim''), CreateSandbox,
       Exec 2 [js ''python3'', js ''-c'', js ''print(1)''], ReadText],
      Inl (JSError (js ''Modal execution failed: stream closed''))) \<and>
   runCode (Inr (sample_app (sample_sandbox 2
              (Inr \<lparr>readText = Inr (Some (js ''1''), Some []),
                     wait = Inl (Printable (JSError (js ''connection lost'')))\<rparr>)
              (Inr None))))
     (sample_handle (Inl (JSError (js ''unused''))) (Inr None)) (js ''print(1)'') (Some Python)
   = ([AppLookup, ImageFromRegistry (js ''python:3.13-slim''), CreateSandbox,
       Exec 2 [js ''python3'', js ''-c'', js ''print(1)''], ReadText, Wait],
      Inl (JSError (js ''Modal execution failed: connection lost'')))"
  by (simp add: runCode_def runCode_try_def select_sandbox_def exec_collect_def runCode_catch_def
      sample_app_def sample_sandbox_def sample_handle_def)

section \<open>Sandbox information and existence probe\<close>

text \<open>
  Claim C10. \<open>getInfo\<close> reports runtime node, timeout 300000 and, as creation time,
  the reading of the clock at the call, whatever the handle; the id (also repeated in
  the metadata) and the status polled are the only fields that depend on the handle:
  the information on a handle \<open>ms\<close> is that on any other handle \<open>ms'\<close> with these
  fields replaced.
\<close>

theorem getInfo_fixed_fields:
  "info_runtime (snd (getInfo now ms)) = Node \<and>
   info_timeout (snd (getInfo now ms)) = 300000 \<and>
   info_createdAt (snd (getInfo now ms)) = now \<and>
   info_id (snd (getInfo now ms)) = sandboxId ms \<and>
   info_status (snd (getInfo now ms)) = poll_status (sb_poll (sandbox ms)) \<and>
   snd (getInfo now ms)
     = (snd (getInfo now ms'))
         \<lparr>info_id := sandboxId ms,
          info_status := poll_status (sb_poll (sandbox ms)),
          info_modalSandboxId := sandboxId ms\<rparr>"
  by (simp add: getInfo_def)

text \<open>
  Claim C8. \<open>exists\<close> never throws: it returns true exactly when the probe
  \<^verbatim>\<open>test -e path\<close> could be started and waited for and its exit code is 0, and false in
  every other case, including the failure to start the probe or to wait for it.
\<close>

theorem exists_path_total:
  "snd (exists_path ms path)
     = Inr (\<exists>p. sb_exec (sandbox ms) [js ''test'', js ''-e'', path] = Inr p \<and> wait p = Inr (Some 0))"
  by (auto simp: exists_path_def split: sum.splits)

section \<open>Reading and writing files\<close>










lemma trim_length_le: "length (trim s) \<le> length s"
proof -
  have "length (dropWhile is_ws (rev (dropWhile is_ws s))) \<le> length (rev (dropWhile is_ws s))"
    by (rule length_dropWhile_le)
  also have "\<dots> = length (dropWhile is_ws s)" by simp
  also have "\<dots> \<le> length s" by (rule length_dropWhile_le)
  finally show ?thesis by (simp add: trim_def)
qed

lemma trim_leading: "is_ws x \<Longrightarrow> length (trim (x # xs)) \<le> length xs"
proof -
  assume "is_ws x"
  then have "trim (x # xs) = trim xs" by (simp add: trim_def)
  then show ?thesis by (simp add: trim_length_le)
qed

lemma trim_trailing: "is_ws x \<Longrightarrow> length (trim (xs @ [x])) \<le> length xs"
proof -
  assume w: "is_ws x"
  show ?thesis
  proof (cases "\<forall>y \<in> set xs. is_ws y")
    case True
    with w have "dropWhile is_ws (xs @ [x]) = []" by simp
    then show ?thesis by (simp add: trim_def)
  next
    case False
    then obtain y where "y \<in> set xs" "\<not> is_ws y" by blast
    then have "dropWhile is_ws (xs @ [x]) = dropWhile is_ws xs @ [x]"
      by (rule dropWhile_append1)
    then have "trim (xs @ [x]) = rev (dropWhile is_ws (rev (dropWhile is_ws xs)))"
      using w by (simp add: trim_def)
    then have "trim (xs @ [x]) = trim xs" by (simp add: trim_def)
    then show ?thesis by (simp add: trim_length_le)
  qed
qed

lemma trim_changes:
  "is_ws x \<Longrightarrow> c = x # xs \<or> c = xs @ [x] \<Longrightarrow> trim c \<noteq> c"
  using trim_leading [of x xs] trim_trailing [of x xs] by auto

text \<open>
  Claim C9, as amended. Read through the \<^verbatim>\<open>cat\<close> fallback (the primary path having
  failed), a file of content \<open>c\<close> comes back as \<open>trim c\<close>. The primary path returns what
  \<^verbatim>\<open>read()\<close> gave, a string as it is and other data decoded, and the empty string when
  \<^verbatim>\<open>open\<close> gives no handle or a handle without a \<^verbatim>\<open>read\<close> method. Whenever the primary
  path returns the content \<open>c\<close> and \<open>c\<close> begins or ends with white space, a final newline
  included, the results of the two paths differ.
\<close>

theorem readFile_fallback_trims:
  assumes op: "sb_open (sandbox ms1) path = Inr file"
    and cl: "snd (file_close_step file) = Inr ()"
    and pf: "snd (readFile_primary decode (sandbox ms2) path) = Inl e"
    and ex: "sb_exec (sandbox ms2) [js ''cat'', path] = Inr p"
    and rt: "readText p = Inr (Some c, err)"
    and wt: "wait p = Inr (Some 0)"
  shows "snd (readFile decode ms2 path) = Inr (trim c) \<and>
         (\<forall>f s. file = Some f \<and> f_read f = Some (Inr (Text s)) \<longrightarrow>
            snd (readFile decode ms1 path) = Inr s) \<and>
         (\<forall>f b. file = Some f \<and> f_read f = Some (Inr (Bytes b)) \<longrightarrow>
            snd (readFile decode ms1 path) = Inr (decode b)) \<and>
         (file = None \<or> (\<exists>f. file = Some f \<and> f_read f = None) \<longrightarrow>
            snd (readFile decode ms1 path) = Inr []) \<and>
         (snd (readFile decode ms1 path) = Inr c \<and>
          (\<exists>x xs. is_ws x \<and> (c = x # xs \<or> c = xs @ [x])) \<longrightarrow>
            snd (readFile decode ms1 path) \<noteq> snd (readFile decode ms2 path))"
proof -
  have prim: "snd (readFile decode ms1 path) = Inr t"
    if "snd (file_read_step decode file) = Inr t" for t
    using op cl that
    by (cases "file_read_step decode file"; cases "file_close_step file")
       (auto simp: readFile_def readFile_primary_def split: sum.splits prod.splits)
  have 1: "snd (readFile decode ms1 path) = Inr s"
    if "file = Some f \<and> f_read f = Some (Inr (Text s))" for f s
    using that by (intro prim) (simp add: file_read_step_def)
  have 2: "snd (readFile decode ms1 path) = Inr (decode b)"
    if "file = Some f \<and> f_read f = Some (Inr (Bytes b))" for f b
    using that by (intro prim) (simp add: file_read_step_def)
  have 3: "snd (readFile decode ms1 path) = Inr []"
    if "file = None \<or> (\<exists>f. file = Some f \<and> f_read f = None)"
    using that by (intro prim) (auto simp: file_read_step_def)
  have fb: "readFile_fallback (sandbox ms2) path
              = ([Exec (sb_ref (sandbox ms2)) [js ''cat'', path], ReadText, Wait], Inr (trim c))"
    using exec_collect_ok [OF ex rt wt] by (simp add: readFile_fallback_def)
  have 4: "snd (readFile decode ms2 path) = Inr (trim c)"
    using pf fb by (cases "readFile_primary decode (sandbox ms2) path") (simp add: readFile_def)
  have 5: "c \<noteq> trim c" if "\<exists>x xs. is_ws x \<and> (c = x # xs \<or> c = xs @ [x])"
    using that trim_changes by metis
  from 1 2 3 4 5 show ?thesis by (intro conjI allI impI) (blast, blast, blast, blast, simp)
qed

theorem readFile_fallback_trims_witness:
  "snd (readFile (\<lambda>b. b)
          (sample_handle (Inr (sample_process (js ''hello'' @ [10]) [] 0)) (Inl (JSError (js ''unsupported''))))
          (js ''/a''))
     = Inr (js ''hello'') \<and>
   snd (readFile (\<lambda>b. b)
          (sample_handle (Inl (JSError (js ''no shell''))) (Inr (Some (sample_file (js ''hello'' @ [10])))))
          (js ''/a''))
     = Inr (js ''hello'' @ [10]) \<and>
   snd (readFile (\<lambda>b. b)
          (sample_handle (Inl (JSError (js ''no shell'')))
             (Inr (Some ((sample_file [])\<lparr>f_read := Some (Inr (Bytes (js ''hello'' @ [10])))\<rparr>))))
          (js ''/a''))
     = Inr (js ''hello'' @ [10]) \<and>
   snd (readFile (\<lambda>b. b)
          (sample_handle (Inl (JSError (js ''no shell''))) (Inr (Some unreadable_file)))
          (js ''/a''))
     = Inr [] \<and>
   snd (readFile (\<lambda>b. b)
          (sample_handle (Inl (JSError (js ''no shell''))) (Inr (Some (sample_file (js ''hello'' @ [10])))))
          (js ''/a''))
     \<noteq> snd (readFile (\<lambda>b. b)
          (sample_handle (Inr (sample_process (js ''hello'' @ [10]) [] 0)) (Inl (JSError (js ''unsupported''))))
          (js ''/a''))"
proof -
  let ?c = "js ''hello'' @ [10]"
  let ?ft = "sample_file ?c"
  let ?fb = "(sample_file [])\<lparr>f_read := Some (Inr (Bytes ?c))\<rparr>"
  let ?noshell = "Inl (JSError (js ''no shell'')) :: thrown + process"
  let ?p = "sample_process ?c [] 0"
  let ?ms2 = "sample_handle (Inr ?p) (Inl (JSError (js ''unsupported'')))"
  have op: "sb_open (sandbox (sample_handle ?noshell (Inr fl))) (js ''/a'') = Inr fl" for fl
    by (simp add: sample_handle_def sample_sandbox_def)
  have clt: "snd (file_close_step (Some ?ft)) = Inr ()"
    and clb: "snd (file_close_step (Some ?fb)) = Inr ()"
    and clu: "snd (file_close_step (Some unreadable_file)) = Inr ()"
    by (simp_all add: file_close_step_def sample_file_def unreadable_file_def)
  have rdt: "Some ?ft = Some ?ft \<and> f_read ?ft = Some (Inr (Text ?c))"
    and rdb: "Some ?fb = Some ?fb \<and> f_read ?fb = Some (Inr (Bytes ?c))"
    and rdu: "\<exists>f. Some unreadable_file = Some f \<and> f_read f = None"
    by (simp_all add: sample_file_def unreadable_file_def)
  have pf: "snd (readFile_primary (\<lambda>b. b) (sandbox ?ms2) (js ''/a'')) = Inl (JSError (js ''unsupported''))"
    by (simp add: readFile_primary_def sample_handle_def sample_sandbox_def)
  have ex: "sb_exec (sandbox ?ms2) [js ''cat'', js ''/a''] = Inr ?p"
    by (simp add: sample_handle_def sample_sandbox_def)
  have rt: "readText ?p = Inr (Some ?c, Some [])"
    and wt: "wait ?p = Inr (Some 0)"
    by (simp_all add: sample_process_def)
  have ws: "\<exists>x xs. is_ws x \<and> (?c = x # xs \<or> ?c = xs @ [x])"
  proof -
    have "is_ws 10 \<and> (?c = 10 # js ''hello'' \<or> ?c = js ''hello'' @ [10])"
      by (simp add: is_ws_def)
    then show ?thesis by blast
  qed
  have tr: "trim ?c = js ''hello''"
    by (simp add: trim_def is_ws_def)
  note T = readFile_fallback_trims [OF op _ pf ex rt wt]
  from T [OF clt] rdt
  have 1: "snd (readFile (\<lambda>b. b) ?ms2 (js ''/a'')) = Inr (trim ?c)"
    and 2: "snd (readFile (\<lambda>b. b) (sample_handle ?noshell (Inr (Some ?ft))) (js ''/a'')) = Inr ?c"
    by blast+
  from T [OF clt] 2 ws
  have 3: "snd (readFile (\<lambda>b. b) (sample_handle ?noshell (Inr (Some ?ft))) (js ''/a''))
             \<noteq> snd (readFile (\<lambda>b. b) ?ms2 (js ''/a''))"
    by blast
  from T [OF clb] rdb
  have 4: "snd (readFile (\<lambda>b. b) (sample_handle ?noshell (Inr (Some ?fb))) (js ''/a'')) = Inr ?c"
    by blast
  from T [OF clu] rdu
  have 5: "snd (readFile (\<lambda>b. b) (sample_handle ?noshell (Inr (Some unreadable_file))) (js ''/a''))
             = Inr []"
    by blast
  from 1 2 3 4 5 show ?thesis unfolding tr by blast
qed

text \<open>
  Claim C9, as stated, fails for a handle without a \<^verbatim>\<open>read\<close> method: for a file whose
  content is a single newline, the primary path returns the empty string, not the
  content, and so does the \<^verbatim>\<open>cat\<close> fallback; the two paths agree although the content
  begins with white space.
\<close>

theorem readFile_paths_agree_without_read:
  "snd (readFile id
          (sample_handle (Inl (JSError (js ''no shell''))) (Inr (Some unreadable_file)))
          (js ''/a''))
     = Inr [] \<and>
   snd (readFile id
          (sample_handle (Inr (sample_process [10] [] 0)) (Inl (JSError (js ''unsupported''))))
          (js ''/a''))
     = Inr []"
  by (simp add: readFile_def readFile_primary_def readFile_fallback_def exec_collect_def
      file_read_step_def file_close_step_def sample_handle_def sample_sandbox_def
      sample_process_def unreadable_file_def trim_def is_ws_def)

section \<open>Quoting of the values that runCommand escapes\<close>

lemma add_char_case:
  "add_char c x = (case x of None \<Rightarrow> None | Some (w, r) \<Rightarrow> Some (c # w, r))"
  by (cases x) auto

lemma read_word_append:
  "read_word q s = Some (v, []) \<Longrightarrow>
   read_word q (s @ post) = (case read_word False post of None \<Rightarrow> None | Some (w, r) \<Rightarrow> Some (v @ w, r))"
proof (induction q s arbitrary: v rule: read_word.induct)
  case (1 quoted)
  then show ?case by (cases quoted) (auto split: option.splits)
next
  case (2 c cs)
  note prem = "2.prems"
  consider (blank) "c = 32" | (quote) "c \<noteq> 32" "c = 34"
    | (plain) "c \<noteq> 32" "c \<noteq> 34" "is_plain c" | (other) "c \<noteq> 32" "c \<noteq> 34" "\<not> is_plain c"
    by blast
  then show ?case
  proof cases
    case blank
    with prem show ?thesis by simp
  next
    case quote
    with prem have "read_word True cs = Some (v, [])" by simp
    from "2.IH"(1) [OF quote this] quote show ?thesis by simp
  next
    case plain
    with prem obtain v' where v: "v = c # v'" and r: "read_word False cs = Some (v', [])"
      by (cases "read_word False cs") auto
    from "2.IH"(2) [OF plain r] plain v show ?thesis
      by (simp split: option.splits)
  next
    case other
    with prem show ?thesis by simp
  qed
next
  case (3 c)
  then show ?case by (cases post) (auto split: if_splits option.splits)
next
  case (4 c d ds)
  note prem = "4.prems"
  consider (close) "c = 34"
    | (expand) "c \<noteq> 34" "c = 36 \<or> c = 96"
    | (escaped) "c \<noteq> 34" "\<not> (c = 36 \<or> c = 96)" "c = 92" "d = 36 \<or> d = 96 \<or> d = 34 \<or> d = 92"
    | (continued) "c \<noteq> 34" "\<not> (c = 36 \<or> c = 96)" "c = 92" "\<not> (d = 36 \<or> d = 96 \<or> d = 34 \<or> d = 92)" "d = 10"
    | (literal) "c \<noteq> 34" "\<not> (c = 36 \<or> c = 96)" "c = 92" "\<not> (d = 36 \<or> d = 96 \<or> d = 34 \<or> d = 92)" "d \<noteq> 10"
    | (ordinary) "c \<noteq> 34" "\<not> (c = 36 \<or> c = 96)" "c \<noteq> 92"
    by blast
  then show ?case
  proof cases
    case close
    with prem have "read_word False (d # ds) = Some (v, [])" by simp
    from "4.IH"(1) [OF close this] close show ?thesis by simp
  next
    case expand
    with prem show ?thesis by simp
  next
    case escaped
    with prem obtain v' where v: "v = d # v'" and r: "read_word True ds = Some (v', [])"
      by (cases "read_word True ds") auto
    from "4.IH"(2) [OF escaped r] escaped v show ?thesis
      by (simp split: option.splits)
  next
    case continued
    with prem have r: "read_word True ds = Some (v, [])" by simp
    from "4.IH"(3) [OF continued r] continued show ?thesis by simp
  next
    case literal
    with prem obtain v' where v: "v = c # v'" and r: "read_word True (d # ds) = Some (v', [])"
      by (cases "read_word True (d # ds)") auto
    from "4.IH"(4) [OF literal r] literal v show ?thesis
      by (simp split: option.splits)
  next
    case ordinary
    with prem obtain v' where v: "v = c # v'" and r: "read_word True (d # ds) = Some (v', [])"
      by (cases "read_word True (d # ds)") auto
    from "4.IH"(5) [OF ordinary r] ordinary v show ?thesis
      by (simp split: option.splits)
  qed
qed

lemma escapeShellArg_Cons:
  "escapeShellArg (c # v)
     = (if c = 92 \<or> c = 34 \<or> c = 36 \<or> c = 96 then [92, c] else [c]) @ escapeShellArg v"
  by (simp add: escapeShellArg_def)

lemma escapeShellArg_read:
  "read_word True (escapeShellArg v @ dquote @ post)
     = (case read_word False post of None \<Rightarrow> None | Some (w, r) \<Rightarrow> Some (v @ w, r))"
proof (induction v)
  case Nil
  show ?case by (cases post) (simp_all add: escapeShellArg_def split: option.splits)
next
  case (Cons c v)
  let ?rest = "escapeShellArg v @ dquote @ post"
  obtain d ds where ne: "?rest = d # ds"
    by (cases ?rest) simp_all
  show ?case
  proof (cases "c = 92 \<or> c = 34 \<or> c = 36 \<or> c = 96")
    case True
    then have "read_word True (escapeShellArg (c # v) @ dquote @ post)
                 = add_char c (read_word True ?rest)"
      by (simp only: escapeShellArg_Cons if_True append_Cons append_Nil append_assoc
            read_word.simps) auto
    then show ?thesis by (simp only: Cons.IH) (simp split: option.splits)
  next
    case False
    then have "read_word True (escapeShellArg (c # v) @ dquote @ post)
                 = read_word True (c # d # ds)"
      by (simp only: escapeShellArg_Cons if_False append_Cons append_Nil append_assoc ne)
    also have "\<dots> = add_char c (read_word True (d # ds))"
      using False by simp
    finally show ?thesis by (simp only: ne [symmetric] Cons.IH) (simp split: option.splits)
  qed
qed

lemma is_plain_not_blank: "is_plain c \<Longrightarrow> c \<noteq> 32 \<and> c \<noteq> 34"
  by (simp add: is_plain_def)

lemma read_plain:
  "\<forall>c \<in> set k. is_plain c \<Longrightarrow>
   read_word False (k @ rest)
     = (case read_word False rest of None \<Rightarrow> None | Some (w, r) \<Rightarrow> Some (k @ w, r))"
proof (induction k)
  case Nil
  show ?case by (simp split: option.splits)
next
  case (Cons c k)
  then have p: "is_plain c" and ih: "read_word False (k @ rest)
     = (case read_word False rest of None \<Rightarrow> None | Some (w, r) \<Rightarrow> Some (k @ w, r))"
    by simp_all
  from p is_plain_not_blank [OF p]
  have "read_word False ((c # k) @ rest) = add_char c (read_word False (k @ rest))"
    by simp
  then show ?case by (simp only: ih) (simp split: option.splits)
qed

lemma read_quoted:
  "read_word False (dquote @ escapeShellArg v @ dquote @ post)
     = (case read_word False post of None \<Rightarrow> None | Some (w, r) \<Rightarrow> Some (v @ w, r))"
  using escapeShellArg_read [of v post] by simp

lemma read_blank: "read_word False (js '' '' @ rest) = Some ([], js '' '' @ rest)"
  by simp

lemma read_env_entry:
  assumes "\<forall>c \<in> set k. is_plain c"
  shows "read_word False (env_entry (k, v) @ js '' '' @ rest)
           = Some (k @ js ''='' @ v, js '' '' @ rest)"
proof -
  have pl: "\<forall>c \<in> set (k @ js ''=''). is_plain c"
    using assms by (simp add: is_plain_def)
  have "env_entry (k, v) @ js '' '' @ rest
          = (k @ js ''='') @ (dquote @ escapeShellArg v @ dquote @ (js '' '' @ rest))"
    by (simp add: env_entry_def)
  then have "read_word False (env_entry (k, v) @ js '' '' @ rest)
          = (case read_word False (dquote @ escapeShellArg v @ dquote @ (js '' '' @ rest)) of
               None \<Rightarrow> None | Some (w, r) \<Rightarrow> Some ((k @ js ''='') @ w, r))"
    by (simp only: read_plain [OF pl])
  also have "\<dots> = Some ((k @ js ''='') @ v, js '' '' @ rest)"
    by (simp only: read_quoted read_blank) simp
  finally show ?thesis by simp
qed

lemma read_env_prefix:
  assumes "es \<noteq> []"
    and "\<forall>kv \<in> set es. \<forall>c \<in> set (fst kv). is_plain c"
  shows "read_words (length es) (join_str (js '' '') (map env_entry es) @ js '' '' @ rest)
           = Some (map assignment es, rest)"
  using assms
proof (induction es)
  case Nil
  then show ?case by simp
next
  case (Cons kv es)
  obtain k v where kv: "kv = (k, v)" by (cases kv)
  from Cons.prems kv have pk: "\<forall>c \<in> set k. is_plain c"
    by simp
  show ?case
  proof (cases es)
    case Nil
    have "read_word False (env_entry (k, v) @ js '' '' @ rest)
           = Some (k @ js ''='' @ v, js '' '' @ rest)"
      by (rule read_env_entry [OF pk])
    then show ?thesis using Nil kv by (simp add: assignment_def)
  next
    case (Cons kv' es')
    let ?tail = "join_str (js '' '') (map env_entry es) @ js '' '' @ rest"
    have ih: "read_words (length es) ?tail = Some (map assignment es, rest)"
      using Cons.IH Cons.prems Cons by simp
    have j: "join_str (js '' '') (map env_entry (kv # es)) @ js '' '' @ rest
               = env_entry (k, v) @ js '' '' @ ?tail"
      using Cons kv by simp
    have r: "read_word False (env_entry (k, v) @ js '' '' @ ?tail)
           = Some (k @ js ''='' @ v, js '' '' @ ?tail)"
      by (rule read_env_entry [OF pk])
    have "read_words (Suc (length es)) (env_entry (k, v) @ js '' '' @ ?tail)
            = Some (assignment kv # map assignment es, rest)"
      unfolding read_words.simps r using ih by (simp add: assignment_def kv)
    then show ?thesis by (simp only: j) simp
  qed
qed

lemma read_cd:
  "read_words 2 (js ''cd '' @ dquote @ escapeShellArg d @ dquote @ js '' && '' @ inner)
     = Some ([js ''cd'', d], js ''&& '' @ inner)"
proof -
  let ?arg = "dquote @ escapeShellArg d @ dquote @ js '' && '' @ inner"
  have pl: "\<forall>c \<in> set (js ''cd''). is_plain c"
    by (simp add: is_plain_def)
  have "read_word False (js ''cd'' @ js '' '' @ ?arg) = Some (js ''cd'', js '' '' @ ?arg)"
    by (simp only: read_plain [OF pl] read_blank) simp
  then have 1: "read_word False (js ''cd '' @ ?arg) = Some (js ''cd'', js '' '' @ ?arg)"
    by simp
  have "read_word False (dquote @ escapeShellArg d @ dquote @ (js '' '' @ js ''&& '' @ inner))
          = Some (d, js '' '' @ js ''&& '' @ inner)"
    by (simp only: read_quoted read_blank) simp
  then have 2: "read_word False ?arg = Some (d, js '' '' @ js ''&& '' @ inner)"
    by simp
  have "read_words (Suc (Suc 0)) (js ''cd '' @ ?arg) = Some ([js ''cd'', d], js ''&& '' @ inner)"
    unfolding read_words.simps 1 using 2 by simp
  then show ?thesis by (simp only: numeral_2_eq_2)
qed

lemma read_nohup:
  "read_words (Suc n) (js ''nohup '' @ s)
     = (case read_words n s of None \<Rightarrow> None | Some (ws, r) \<Rightarrow> Some (js ''nohup'' # ws, r))"
proof -
  have pl: "\<forall>c \<in> set (js ''nohup''). is_plain c"
    by (simp add: is_plain_def)
  have "read_word False (js ''nohup'' @ js '' '' @ s) = Some (js ''nohup'', js '' '' @ s)"
    by (simp only: read_plain [OF pl] read_blank) simp
  then have 1: "read_word False (js ''nohup '' @ s) = Some (js ''nohup'', js '' '' @ s)"
    by simp
  show ?thesis unfolding read_words.simps 1 by (simp split: option.splits)
qed

text \<open>
  With \<open>env\<close> keys that are plain words, the string that \<open>runCommand\<close> hands to
  \<^verbatim>\<open>sh -c\<close> keeps every value in its quotes, whatever the \<open>cwd\<close> path and the values
  contain: the shell reads \<^verbatim>\<open>cd\<close> (after \<^verbatim>\<open>nohup\<close> for a background run) and then one
  word, which is the path itself, and comes to \<^verbatim>\<open>&&\<close> and the rest of the command;
  without a \<open>cwd\<close> the command begins with the \<open>env\<close> prefix; and the shell reads the
  \<open>env\<close> prefix as one assignment word \<^verbatim>\<open>KEY=value\<close> per entry, with the value itself,
  and comes to the caller's command.
\<close>

lemma fullCommand_plain_keys:
  assumes en: "\<forall>es kv. env opts = Some es \<and> kv \<in> set es \<longrightarrow> (\<forall>c \<in> set (fst kv). is_plain c)"
  shows "(\<forall>d. cwd opts = Some d \<and> d \<noteq> [] \<longrightarrow>
            read_words (if background opts then 3 else 2) (fullCommand command (Some opts))
              = Some ((if background opts then [js ''nohup''] else []) @ [js ''cd'', d],
                      js ''&& '' @ with_env (Some opts) command
                        @ (if background opts then js '' > /dev/null 2>&1 &'' else []))) \<and>
         (cwd opts = None \<or> cwd opts = Some [] \<longrightarrow>
            fullCommand command (Some opts)
              = (if background opts then js ''nohup '' else []) @ with_env (Some opts) command
                  @ (if background opts then js '' > /dev/null 2>&1 &'' else [])) \<and>
         (\<forall>es. env opts = Some es \<and> es \<noteq> [] \<longrightarrow>
            read_words (length es)
               (with_env (Some opts) command
                  @ (if background opts then js '' > /dev/null 2>&1 &'' else []))
              = Some (map assignment es,
                      command @ (if background opts then js '' > /dev/null 2>&1 &'' else [])))"
proof (intro conjI allI impI)
  fix d assume h: "cwd opts = Some d \<and> d \<noteq> []"
  let ?inner = "with_env (Some opts) command"
  let ?suffix = "if background opts then js '' > /dev/null 2>&1 &'' else []"
  have cdw: "with_cwd (Some opts) ?inner
               = js ''cd '' @ dquote @ escapeShellArg d @ dquote @ js '' && '' @ ?inner"
    using h by (simp add: with_cwd_def)
  show "read_words (if background opts then 3 else 2) (fullCommand command (Some opts))
          = Some ((if background opts then [js ''nohup''] else []) @ [js ''cd'', d],
                  js ''&& '' @ ?inner @ ?suffix)"
  proof (cases "background opts")
    case False
    then have "fullCommand command (Some opts)
                 = js ''cd '' @ dquote @ escapeShellArg d @ dquote @ js '' && '' @ ?inner"
      by (simp only: fullCommand_def with_background_def cdw) simp
    then show ?thesis using False read_cd [of d ?inner] by simp
  next
    case True
    then have "fullCommand command (Some opts)
                 = js ''nohup '' @ (js ''cd '' @ dquote @ escapeShellArg d @ dquote @ js '' && ''
                      @ (?inner @ js '' > /dev/null 2>&1 &''))"
      by (simp only: fullCommand_def with_background_def cdw) simp
    moreover have "read_words (Suc 2)
                     (js ''nohup '' @ (js ''cd '' @ dquote @ escapeShellArg d @ dquote @ js '' && ''
                        @ (?inner @ js '' > /dev/null 2>&1 &'')))
                   = Some ([js ''nohup'', js ''cd'', d],
                           js ''&& '' @ ?inner @ js '' > /dev/null 2>&1 &'')"
      by (simp only: read_nohup read_cd) simp
    ultimately show ?thesis using True by (simp add: numeral_3_eq_3 numeral_2_eq_2)
  qed
next
  assume "cwd opts = None \<or> cwd opts = Some []"
  then show "fullCommand command (Some opts)
              = (if background opts then js ''nohup '' else []) @ with_env (Some opts) command
                  @ (if background opts then js '' > /dev/null 2>&1 &'' else [])"
    by (auto simp: fullCommand_def with_background_def with_cwd_def)
next
  fix es assume h: "env opts = Some es \<and> es \<noteq> []"
  let ?suffix = "if background opts then js '' > /dev/null 2>&1 &'' else []"
  from h en have ok: "\<forall>kv \<in> set es. \<forall>c \<in> set (fst kv). is_plain c"
    by blast
  from h have ne: "es \<noteq> []" by simp
  have "with_env (Some opts) command @ ?suffix
          = join_str (js '' '') (map env_entry es) @ js '' '' @ (command @ ?suffix)"
    using h by (simp add: with_env_def)
  then show "read_words (length es) (with_env (Some opts) command @ ?suffix)
              = Some (map assignment es, command @ ?suffix)"
    by (simp only: read_env_prefix [OF ne ok])
qed

lemma fullCommand_plain_keys_example:
  "read_words 2 (fullCommand (js ''ls'') (Some sample_options))
     = Some ([js ''cd'', js ''/tmp/a'' @ dquote @ js ''; rm -rf /; echo '' @ dquote],
             js ''&& '' @ with_env (Some sample_options) (js ''ls'')) \<and>
   read_words 1 (with_env (Some sample_options) (js ''ls''))
     = Some ([js ''MSG=$(reboot)'' @ dquote @ js ''; id''], js ''ls'')"
proof -
  have en: "\<forall>es kv. env sample_options = Some es \<and> kv \<in> set es \<longrightarrow>
               (\<forall>c \<in> set (fst kv). is_plain c)"
    by (simp add: sample_options_def is_plain_def)
  have c: "cwd sample_options = Some (js ''/tmp/a'' @ dquote @ js ''; rm -rf /; echo '' @ dquote) \<and>
           js ''/tmp/a'' @ dquote @ js ''; rm -rf /; echo '' @ dquote \<noteq> []"
    and e: "env sample_options = Some [(js ''MSG'', js ''$(reboot)'' @ dquote @ js ''; id'')] \<and>
           [(js ''MSG'', js ''$(reboot)'' @ dquote @ js ''; id'')] \<noteq> []"
    and b: "\<not> background sample_options"
    by (simp_all add: sample_options_def)
  note T = fullCommand_plain_keys [OF en, of "js ''ls''"]
  from T c b
  have 1: "read_words 2 (fullCommand (js ''ls'') (Some sample_options))
     = Some ([] @ [js ''cd'', js ''/tmp/a'' @ dquote @ js ''; rm -rf /; echo '' @ dquote],
             js ''&& '' @ with_env (Some sample_options) (js ''ls'') @ [])"
    by (simp only: if_False) blast
  from T e b
  have 2: "read_words (length [(js ''MSG'', js ''$(reboot)'' @ dquote @ js ''; id'')])
             (with_env (Some sample_options) (js ''ls'') @ [])
     = Some (map assignment [(js ''MSG'', js ''$(reboot)'' @ dquote @ js ''; id'')], js ''ls'' @ [])"
    by (simp only: if_False) blast
  from 1 2 show ?thesis by (simp add: assignment_def)
qed

text \<open>
  Claim C1. No \<open>env\<close> value is to leave its quotes and run as a command, for every
  call of \<open>runCommand\<close>. The source escapes the values and the \<open>cwd\<close> path but puts the
  \<open>env\<close> keys into the command as they are. Here the key is \<^verbatim>\<open>A="\<close> and the value
  \<^verbatim>\<open>;id;#\<close>: the quote in the key is closed by the quote that \<open>runCommand\<close> opens
  for the value, the shell has read the word \<^verbatim>\<open>A==\<close> when it comes to the value, and
  the value stands outside any quotes, where its \<^verbatim>\<open>;\<close> ends the command and \<^verbatim>\<open>id\<close> is
  the next one. The command is not read as one assignment word followed by \<^verbatim>\<open>ls\<close>.
\<close>

theorem fullCommand_env_key_opens_quotes:
  "fullCommand (js ''ls'') (Some injecting_options)
     = js ''A='' @ dquote @ js ''='' @ dquote @ js '';id;#'' @ dquote @ js '' ls'' \<and>
   read_word False (js ''A='' @ dquote @ js ''='' @ dquote) = Some (js ''A=='', []) \<and>
   read_word False (js '';id;#'' @ dquote @ js '' ls'') = None \<and>
   read_words 1 (fullCommand (js ''ls'') (Some injecting_options)) = None"
  by (simp add: fullCommand_def with_background_def with_cwd_def with_env_def env_entry_def
      escapeShellArg_def injecting_options_def is_plain_def)

section \<open>Tunnel URLs\<close>

lemma change_scheme_frame: "same_but_scheme_port u (change_scheme u b)"
  by (simp add: change_scheme_def same_but_scheme_port_def)

lemma scheme_state_frame: "same_but_scheme_port u (scheme_state u b s)"
proof (induction s arbitrary: b)
  case Nil
  show ?case by (simp add: same_but_scheme_port_def)
next
  case (Cons c s)
  have "same_but_scheme_port u u" by (simp add: same_but_scheme_port_def)
  with Cons change_scheme_frame [of u b] show ?case by simp
qed

lemma set_protocol_frame: "same_but_scheme_port u (set_protocol u v)"
proof (cases "filter (\<lambda>c. c \<noteq> 9 \<and> c \<noteq> 10 \<and> c \<noteq> 13) (v @ js '':'')")
  case Nil
  then show ?thesis by (simp add: set_protocol_def same_but_scheme_port_def)
next
  case (Cons c cs)
  then show ?thesis
    using scheme_state_frame [of u "[lowercase c]" cs]
    by (simp add: set_protocol_def same_but_scheme_port_def)
qed

lemma scheme_state_run:
  "list_all is_scheme_char q \<Longrightarrow>
   scheme_state u b (q @ 58 # rest) = change_scheme u (b @ map lowercase q)"
proof (induction q arbitrary: b)
  case Nil
  show ?case by (simp add: is_scheme_char_def is_alpha_def)
next
  case (Cons c q)
  then show ?case by simp
qed

lemma scheme_char_kept: "is_scheme_char c \<Longrightarrow> c \<noteq> 9 \<and> c \<noteq> 10 \<and> c \<noteq> 13"
  by (auto simp: is_scheme_char_def is_alpha_def)

lemma set_protocol_valid:
  assumes "valid_scheme p"
  shows "set_protocol u (p @ js '':'') = change_scheme u (map lowercase p)"
proof -
  from assms obtain c cs where p: "p = c # cs" and a: "is_alpha c" and r: "list_all is_scheme_char cs"
    by (auto simp: valid_scheme_def split: list.splits)
  from a have "is_scheme_char c" by (simp add: is_scheme_char_def)
  with r have "\<forall>x \<in> set p. x \<noteq> 9 \<and> x \<noteq> 10 \<and> x \<noteq> 13"
    using scheme_char_kept by (auto simp: p list_all_iff)
  then have "filter (\<lambda>c. c \<noteq> 9 \<and> c \<noteq> 10 \<and> c \<noteq> 13) p = p"
    by (simp add: filter_id_conv)
  then have "filter (\<lambda>c. c \<noteq> 9 \<and> c \<noteq> 10 \<and> c \<noteq> 13) (p @ [58, 58]) = p @ [58, 58]"
    by (simp only: filter_append) simp
  then have f: "filter (\<lambda>c. c \<noteq> 9 \<and> c \<noteq> 10 \<and> c \<noteq> 13) ((p @ js '':'') @ js '':'')
                  = c # (cs @ 58 # [58])"
    unfolding p by simp
  have "scheme_state u [lowercase c] (cs @ 58 # [58]) = change_scheme u ([lowercase c] @ map lowercase cs)"
    by (rule scheme_state_run [OF r])
  with a f show ?thesis by (simp add: set_protocol_def p)
qed

lemma change_scheme_ok:
  "can_change u s \<Longrightarrow>
   url_scheme (change_scheme u s) = s \<and>
   url_port (change_scheme u s) = (if url_port u = default_port s then None else url_port u)"
  by (auto simp: can_change_def change_scheme_def)

lemma change_scheme_refused: "\<not> can_change u s \<Longrightarrow> change_scheme u s = u"
  by (auto simp: can_change_def change_scheme_def)

text \<open>
  What \<open>getUrl\<close> returns for a port that has a tunnel. Without a protocol override
  (none, or the empty string) it is the tunnel's URL string unchanged. With an
  override \<open>p\<close> and a tunnel URL that parses to \<open>u\<close>, it is the serialisation of a URL
  \<open>u'\<close> that has the username, password, host, path, query and fragment of \<open>u\<close>; when
  \<open>p\<close> is a valid scheme name that the setter accepts for \<open>u\<close>, the scheme of \<open>u'\<close> is
  \<open>p\<close> in lower case and its port is that of \<open>u\<close>, or none when that is the default
  port of the new scheme; when \<open>p\<close> is a valid scheme name that the setter does not
  accept for \<open>u\<close>, \<open>u'\<close> is \<open>u\<close>.
\<close>

lemma getUrl_with_tunnel:
  assumes tn: "sb_tunnels (sandbox ms) = Inr tunnels"
    and tu: "map_of tunnels (opt_port options) = Some url"
  shows "(opt_protocol options = None \<or> opt_protocol options = Some []
            \<longrightarrow> snd (getUrl parseURL ms options) = Inr url) \<and>
         (\<forall>p u. opt_protocol options = Some p \<and> p \<noteq> [] \<and> parseURL url = Inr u \<longrightarrow>
            (\<exists>u'. snd (getUrl parseURL ms options) = Inr (serialize_url u') \<and>
                  same_but_scheme_port u u' \<and>
                  (valid_scheme p \<and> can_change u (map lowercase p) \<longrightarrow>
                     url_scheme u' = map lowercase p \<and>
                     url_port u' = (if url_port u = default_port (map lowercase p) then None
                                    else url_port u)) \<and>
                  (valid_scheme p \<and> \<not> can_change u (map lowercase p) \<longrightarrow> u' = u)))"
proof (intro conjI allI impI)
  assume "opt_protocol options = None \<or> opt_protocol options = Some []"
  then show "snd (getUrl parseURL ms options) = Inr url"
    using tn tu by (auto simp: getUrl_def getUrl_try_def)
next
  fix p u
  assume h: "opt_protocol options = Some p \<and> p \<noteq> [] \<and> parseURL url = Inr u"
  let ?u' = "set_protocol u (p @ js '':'')"
  have 1: "snd (getUrl parseURL ms options) = Inr (serialize_url ?u')"
    using tn tu h by (simp add: getUrl_def getUrl_try_def)
  have 2: "same_but_scheme_port u ?u'" by (rule set_protocol_frame)
  have 3: "url_scheme ?u' = map lowercase p \<and>
           url_port ?u' = (if url_port u = default_port (map lowercase p) then None else url_port u)"
    if "valid_scheme p \<and> can_change u (map lowercase p)"
    using that set_protocol_valid [of p u] change_scheme_ok [of u "map lowercase p"] by simp
  have 4: "?u' = u" if "valid_scheme p \<and> \<not> can_change u (map lowercase p)"
    using that set_protocol_valid [of p u] change_scheme_refused [of u "map lowercase p"] by simp
  from 1 2 3 4
  show "\<exists>u'. snd (getUrl parseURL ms options) = Inr (serialize_url u') \<and>
                  same_but_scheme_port u u' \<and>
                  (valid_scheme p \<and> can_change u (map lowercase p) \<longrightarrow>
                     url_scheme u' = map lowercase p \<and>
                     url_port u' = (if url_port u = default_port (map lowercase p) then None
                                    else url_port u)) \<and>
                  (valid_scheme p \<and> \<not> can_change u (map lowercase p) \<longrightarrow> u' = u)"
    by blast
qed

lemma getUrl_with_tunnel_example:
  "snd (getUrl sample_parse tunnel_handle \<lparr>opt_port = js ''8080'', opt_protocol = None\<rparr>)
     = Inr (js ''https://ab12.modal.host'') \<and>
   snd (getUrl sample_parse tunnel_handle \<lparr>opt_port = js ''8080'', opt_protocol = Some (js ''WSS'')\<rparr>)
     = Inr (js ''wss://ab12.modal.host/'')"
proof -
  let ?o1 = "\<lparr>opt_port = js ''8080'', opt_protocol = None\<rparr>"
  let ?o2 = "\<lparr>opt_port = js ''8080'', opt_protocol = Some (js ''WSS'')\<rparr>"
  have tn: "sb_tunnels (sandbox tunnel_handle) = Inr [(js ''8080'', js ''https://ab12.modal.host'')]"
    by (simp add: tunnel_handle_def sample_sandbox_def)
  have tu1: "map_of [(js ''8080'', js ''https://ab12.modal.host'')] (opt_port ?o1)
               = Some (js ''https://ab12.modal.host'')"
    and tu2: "map_of [(js ''8080'', js ''https://ab12.modal.host'')] (opt_port ?o2)
               = Some (js ''https://ab12.modal.host'')"
    by simp_all
  from getUrl_with_tunnel [OF tn tu1, of sample_parse]
  have 1: "snd (getUrl sample_parse tunnel_handle ?o1) = Inr (js ''https://ab12.modal.host'')"
    by simp
  have pu: "opt_protocol ?o2 = Some (js ''WSS'') \<and> js ''WSS'' \<noteq> [] \<and>
            sample_parse (js ''https://ab12.modal.host'') = Inr sample_url"
    by (simp add: sample_parse_def)
  have ok: "valid_scheme (js ''WSS'') \<and> can_change sample_url (map lowercase (js ''WSS''))"
    by (simp add: valid_scheme_def is_alpha_def is_scheme_char_def can_change_def lowercase_def
        is_special_def includes_credentials_def sample_url_def)
  from getUrl_with_tunnel [OF tn tu2, of sample_parse] pu ok
  obtain u' where r: "snd (getUrl sample_parse tunnel_handle ?o2) = Inr (serialize_url u')"
    and f: "same_but_scheme_port sample_url u'"
    and sc: "url_scheme u' = map lowercase (js ''WSS'')"
    and po: "url_port u' = (if url_port sample_url = default_port (map lowercase (js ''WSS''))
                            then None else url_port sample_url)"
    by blast
  from f sc po have "serialize_url u' = js ''wss://ab12.modal.host/''"
    by (simp add: serialize_url_def same_but_scheme_port_def includes_credentials_def
        sample_url_def lowercase_def default_port_def)
  with r 1 show ?thesis by simp
qed

text \<open>
  Claim C7. With a protocol override, \<open>getUrl\<close> is to return the tunnel's URL with the
  requested protocol as its scheme. The source assigns the protocol to the parsed URL
  (its comment: replace the URL's protocol) and does not look at whether the
  assignment took effect. Here the tunnel URL is \<^verbatim>\<open>https://ab12.modal.host\<close> and the
  protocol requested is \<^verbatim>\<open>tcp\<close>: the setter does not turn a special scheme into a
  non-special one, and the URL returned still has the scheme \<^verbatim>\<open>https\<close>.
\<close>

theorem getUrl_scheme_not_replaced:
  "snd (getUrl sample_parse tunnel_handle \<lparr>opt_port = js ''8080'', opt_protocol = Some (js ''tcp'')\<rparr>)
     = Inr (js ''https://ab12.modal.host/'') \<and>
   url_scheme (set_protocol sample_url (js ''tcp'' @ js '':'')) = js ''https''"
  by (simp add: getUrl_def getUrl_try_def tunnel_handle_def sample_sandbox_def sample_parse_def
      sample_url_def set_protocol_def is_alpha_def is_scheme_char_def lowercase_def
      change_scheme_def is_special_def serialize_url_def includes_credentials_def)

end
